theory Spec2Isabelle
  imports Complex_Main "HOL-Library.Word"
begin

section \<open>Machine types\<close>

text \<open>
  The interaction-detection engine of \<^verbatim>\<open>ebm_native\<close>, as built for a 64-bit
  host in release mode (\<^verbatim>\<open>NDEBUG\<close>: every \<^verbatim>\<open>EBM_ASSERT\<close> is empty; logging is
  left out).  \<^verbatim>\<open>size_t\<close> is an unsigned 64-bit word.  \<^verbatim>\<open>IntEbmType\<close>
  (\<^verbatim>\<open>int64_t\<close>) and \<^verbatim>\<open>ptrdiff_t\<close> are 64-bit words read in two's complement
  with \<open>sint\<close>.
\<close>

type_synonym size_t = "64 word"
type_synonym IntEbmType = "64 word"
type_synonym ptrdiff_t = "64 word"

text \<open>\<^verbatim>\<open>std::numeric_limits<size_t>::max()\<close>\<close>

definition size_t_max :: size_t where
  "size_t_max = - 1"

subsection \<open>Overflow checks of EbmInternal.h\<close>

definition IsMultiplyError :: "size_t \<Rightarrow> size_t \<Rightarrow> bool" where
  "IsMultiplyError num1 num2 =
     (0 \<noteq> num1 \<and> ((size_t_max - num1 + 1) div num1 < num2))"

definition IsAddError :: "size_t \<Rightarrow> size_t \<Rightarrow> bool" where
  "IsAddError num1 num2 = (num1 + num2 < num1)"

text \<open>
  \<^verbatim>\<open>IsNumberConvertable<TTo>(number)\<close> for a signed 64-bit \<^verbatim>\<open>number\<close> and an
  unsigned target of any width: \<^verbatim>\<open>0 <= number && number <= max\<close>.
\<close>

definition IsNumberConvertable :: "IntEbmType \<Rightarrow> 'a::len word \<Rightarrow> bool" where
  "IsNumberConvertable number to_max = (0 \<le> sint number \<and> sint number \<le> uint to_max)"

text \<open>
  \<^verbatim>\<open>IsNumberConvertable<ptrdiff_t>(countTargetClasses)\<close>: signed to signed of the
  same width.
\<close>

definition IsNumberConvertable_ptrdiff_t :: "IntEbmType \<Rightarrow> bool" where
  "IsNumberConvertable_ptrdiff_t number =
     (- (2 ^ 63) \<le> sint number \<and> sint number \<le> 2 ^ 63 - 1)"

subsection \<open>Learning type helpers of EbmInternal.h\<close>

definition k_regression :: ptrdiff_t where
  "k_regression = - 1"

definition k_dynamicClassification :: ptrdiff_t where
  "k_dynamicClassification = 0"

definition IsRegression :: "ptrdiff_t \<Rightarrow> bool" where
  "IsRegression learningTypeOrCountTargetClasses =
     (k_regression = learningTypeOrCountTargetClasses)"

definition IsClassification :: "ptrdiff_t \<Rightarrow> bool" where
  "IsClassification learningTypeOrCountTargetClasses =
     (0 \<le> sint learningTypeOrCountTargetClasses)"

definition GetVectorLength :: "ptrdiff_t \<Rightarrow> size_t" where
  "GetVectorLength learningTypeOrCountTargetClasses =
     (if sint learningTypeOrCountTargetClasses \<le> 2 then 1
      else learningTypeOrCountTargetClasses)"

definition GET_LEARNING_TYPE_OR_COUNT_TARGET_CLASSES :: "ptrdiff_t \<Rightarrow> ptrdiff_t \<Rightarrow> ptrdiff_t" where
  "GET_LEARNING_TYPE_OR_COUNT_TARGET_CLASSES compilerLearningTypeOrCountTargetClasses
       runtimeLearningTypeOrCountTargetClasses =
     (if k_dynamicClassification = compilerLearningTypeOrCountTargetClasses
      then runtimeLearningTypeOrCountTargetClasses
      else compilerLearningTypeOrCountTargetClasses)"

text \<open>
  \<^verbatim>\<open>CountBitsRequired(maxValue)\<close>, and from it \<^verbatim>\<open>k_cBitsForSizeT\<close> and
  \<^verbatim>\<open>k_cDimensionsMax\<close>.
\<close>

function CountBitsRequired :: "size_t \<Rightarrow> size_t" where
  "CountBitsRequired maxValue =
     (if 0 = maxValue then 0 else 1 + CountBitsRequired (maxValue div 2))"
  by pat_completeness auto
termination
proof (relation "measure unat")
  show "wf (measure unat)" by simp
next
  fix maxValue :: size_t
  assume "0 \<noteq> maxValue"
  then have "0 < unat maxValue"
    by (simp add: unat_gt_0)
  then have "unat maxValue div 2 < unat maxValue"
    by simp
  then show "(maxValue div 2, maxValue) \<in> measure unat"
    by (simp add: unat_div)
qed

declare CountBitsRequired.simps [simp del]

definition k_cBitsForSizeT :: size_t where
  "k_cBitsForSizeT = CountBitsRequired size_t_max"

definition k_cDimensionsMax :: size_t where
  "k_cDimensionsMax = k_cBitsForSizeT - 1"

section \<open>The C heap and the scratch arena\<close>

text \<open>
  The heap is the table of live \<^verbatim>\<open>malloc\<close> blocks: address to size in bytes.
  A pointer is an optional address, \<open>None\<close> for \<^verbatim>\<open>nullptr\<close>.  What
  \<^verbatim>\<open>malloc\<close> answers is decided by the C library, so the answer is an input of
  every function that allocates: \<open>None\<close> when the allocation fails, the address of
  the new block otherwise.
\<close>

type_synonym addr = nat
type_synonym heap = "addr \<rightharpoonup> nat"

definition malloc :: "addr option \<Rightarrow> nat \<Rightarrow> heap \<Rightarrow> addr option \<times> heap" where
  "malloc answer cBytes h =
     (case answer of None \<Rightarrow> (None, h) | Some p \<Rightarrow> (Some p, h(p \<mapsto> cBytes)))"

definition free :: "addr option \<Rightarrow> heap \<Rightarrow> heap" where
  "free p h = (case p of None \<Rightarrow> h | Some a \<Rightarrow> h(a := None))"

text \<open>\<^verbatim>\<open>EbmMalloc<void>(cItems)\<close>: one byte per item, so no multiplication check.\<close>

definition EbmMalloc_void :: "addr option \<Rightarrow> size_t \<Rightarrow> heap \<Rightarrow> addr option \<times> heap" where
  "EbmMalloc_void answer cItems h = malloc answer (unat cItems) h"

record CachedInteractionThreadResources =
  m_aThreadByteBuffer1 :: "addr option"
  m_cThreadByteBufferCapacity1 :: size_t

text \<open>
  \<^verbatim>\<open>InitializeZero\<close> and the size of the class come from
  CachedThreadResourcesInteraction.h, which is not among the sources: the two members
  are the ones CachedThreadResourcesInteraction.cpp uses, zeroed as the
  \<^verbatim>\<open>InitializeZero\<close> of DataSetBoosting.h zeroes its members.
\<close>

definition InitializeZero :: CachedInteractionThreadResources where
  "InitializeZero = \<lparr>m_aThreadByteBuffer1 = None, m_cThreadByteBufferCapacity1 = 0\<rparr>"

definition sizeof_CachedInteractionThreadResources :: nat where
  "sizeof_CachedInteractionThreadResources = 16"

text \<open>
  \<^verbatim>\<open>CachedInteractionThreadResources::Allocate\<close>: the object lives at the
  address \<^verbatim>\<open>malloc\<close> answered; the model carries its value next to that address.
\<close>

definition Allocate :: "addr option \<Rightarrow> heap \<Rightarrow> (addr \<times> CachedInteractionThreadResources) option \<times> heap" where
  "Allocate answer h =
     (case malloc answer sizeof_CachedInteractionThreadResources h of
        (None, h') \<Rightarrow> (None, h')
      | (Some pNew, h') \<Rightarrow> (Some (pNew, InitializeZero), h'))"

definition Free :: "addr \<times> CachedInteractionThreadResources \<Rightarrow> heap \<Rightarrow> heap" where
  "Free pCachedResources h =
     free (Some (fst pCachedResources))
       (free (m_aThreadByteBuffer1 (snd pCachedResources)) h)"

definition GetThreadByteBuffer1 ::
  "addr option \<Rightarrow> size_t \<Rightarrow> CachedInteractionThreadResources \<Rightarrow> heap
   \<Rightarrow> addr option \<times> CachedInteractionThreadResources \<times> heap" where
  "GetThreadByteBuffer1 answer cBytesRequired this h =
     (if m_cThreadByteBufferCapacity1 this < cBytesRequired then
        (case EbmMalloc_void answer (push_bit 1 cBytesRequired)
                (free (m_aThreadByteBuffer1 this) h) of
           (aBuffer, h') \<Rightarrow>
             (aBuffer,
              \<lparr>m_aThreadByteBuffer1 = aBuffer,
               m_cThreadByteBufferCapacity1 = push_bit 1 cBytesRequired\<rparr>,
              h'))
      else (m_aThreadByteBuffer1 this, this, h))"

text \<open>The stored buffer pointer is null or points to a live block.\<close>

definition arena_ok :: "CachedInteractionThreadResources \<Rightarrow> heap \<Rightarrow> bool" where
  "arena_ok this h =
     (case m_aThreadByteBuffer1 this of None \<Rightarrow> True | Some a \<Rightarrow> a \<in> dom h)"

text \<open>
  C++ checks no write against the size of the block it goes to.  \<open>block_holds h a cBytes\<close>
  says that the block at \<open>a\<close> is live and \<open>cBytes\<close> bytes written from its start stay
  inside it.  A function of the model that writes where this fails has no result: the
  behaviour of the program is undefined from there on, and the function is \<open>None\<close>.
\<close>

definition block_holds :: "heap \<Rightarrow> addr \<Rightarrow> nat \<Rightarrow> bool" where
  "block_holds h a cBytes = (case h a of None \<Rightarrow> False | Some cBytesBlock \<Rightarrow> cBytes \<le> cBytesBlock)"

section \<open>Floating point\<close>

text \<open>
  \<^verbatim>\<open>FloatEbmType\<close> is an IEEE-754 double.  The model keeps what the scoring
  code looks at: NaN, the two infinities, and the finite values as reals.  The
  comparisons are the ones of C++, false as soon as one side is NaN.  Sums, quotients
  and conversions are computed by code that is not among the sources; they come in as
  parameters (see \<open>env\<close> below).
\<close>

datatype FloatEbmType = NaN | NegInf | Finite real | PosInf

fun isnan :: "FloatEbmType \<Rightarrow> bool" where
  "isnan NaN = True"
| "isnan NegInf = False"
| "isnan (Finite x) = False"
| "isnan PosInf = False"

fun float_le :: "FloatEbmType \<Rightarrow> FloatEbmType \<Rightarrow> bool" where
  "float_le NaN y = False"
| "float_le NegInf NaN = False"
| "float_le NegInf y = True"
| "float_le (Finite a) NaN = False"
| "float_le (Finite a) NegInf = False"
| "float_le (Finite a) (Finite b) = (a \<le> b)"
| "float_le (Finite a) PosInf = True"
| "float_le PosInf PosInf = True"
| "float_le PosInf y = False"

fun float_less :: "FloatEbmType \<Rightarrow> FloatEbmType \<Rightarrow> bool" where
  "float_less NaN y = False"
| "float_less NegInf NaN = False"
| "float_less NegInf NegInf = False"
| "float_less NegInf y = True"
| "float_less (Finite a) NaN = False"
| "float_less (Finite a) NegInf = False"
| "float_less (Finite a) (Finite b) = (a < b)"
| "float_less (Finite a) PosInf = True"
| "float_less PosInf y = False"

text \<open>\<^verbatim>\<open>std::numeric_limits<FloatEbmType>::max()\<close>, the largest finite double.\<close>

definition FloatEbmType_max :: FloatEbmType where
  "FloatEbmType_max = Finite ((2 ^ 53 - 1) * 2 ^ 971)"

section \<open>Features, the interaction state and what the sources leave out\<close>

datatype FeatureType = Ordinal | Nominal

text \<open>
  \<^verbatim>\<open>Feature\<close> (FeatureAtomic.h is not among the sources): the four values
  \<^verbatim>\<open>Initialize(cBins, iFeatureData, featureType, bMissing)\<close> stores;
  \<^verbatim>\<open>GetCountBins()\<close> reads the first.
\<close>

record Feature =
  m_cBins :: size_t
  m_iFeatureData :: size_t
  m_featureType :: FeatureType
  m_bMissing :: bool

definition GetCountBins :: "Feature \<Rightarrow> size_t" where
  "GetCountBins pFeature = m_cBins pFeature"

text \<open>
  \<^verbatim>\<open>EbmInteractionState\<close>: the members \<^verbatim>\<open>EbmInteractionState::Allocate\<close>
  sets.  Of the data set (DataSetInteraction.h is not among the sources) the scoring
  entry point reads only \<^verbatim>\<open>GetCountSamples()\<close>; the two log counters are left out.
\<close>

record EbmInteractionState =
  m_runtimeLearningTypeOrCountTargetClasses :: ptrdiff_t
  m_cFeatures :: size_t
  m_aFeatures :: "Feature list"
  m_dataSet_cSamples :: size_t

definition GetRuntimeLearningTypeOrCountTargetClasses :: "EbmInteractionState \<Rightarrow> ptrdiff_t" where
  "GetRuntimeLearningTypeOrCountTargetClasses s = m_runtimeLearningTypeOrCountTargetClasses s"

definition GetCountFeatures :: "EbmInteractionState \<Rightarrow> size_t" where
  "GetCountFeatures s = m_cFeatures s"

definition GetFeatures :: "EbmInteractionState \<Rightarrow> Feature list" where
  "GetFeatures s = m_aFeatures s"

definition GetCountSamples :: "EbmInteractionState \<Rightarrow> size_t" where
  "GetCountSamples s = m_dataSet_cSamples s"

text \<open>
  A histogram bucket as the pair sweep reads it (HistogramBucket.h and
  HistogramTargetEntry.h are not among the sources): the sample count and, per vector
  index, the entry with its \<^verbatim>\<open>m_sumResidualError\<close>.
\<close>

record HistogramBucketVectorEntry =
  m_sumResidualError :: FloatEbmType

record HistogramBucket =
  m_cSamplesInBucket :: size_t
  m_aHistogramBucketVectorEntry :: "nat \<Rightarrow> HistogramBucketVectorEntry"

text \<open>
  Everything the scoring path calls but the sources do not hold is a field of \<open>env\<close>:
  \<^item> \<^verbatim>\<open>GetHistogramBucketSizeOverflow\<close> and \<^verbatim>\<open>GetHistogramBucketSize\<close>
    (HistogramBucket.h), functions of \<^verbatim>\<open>bClassification\<close> and \<^verbatim>\<open>cVectorLength\<close>;
  \<^item> \<^verbatim>\<open>TensorTotalsSum\<close> (TensorTotalsSum.h) on the histogram that
    \<^verbatim>\<open>BinInteraction\<close> and \<^verbatim>\<open>TensorTotalsBuild\<close> made of the state's data set
    for the feature group: the bucket it writes for the start point
    \<^verbatim>\<open>(aiStart[0], aiStart[1])\<close> and the direction vector;
  \<^item> \<^verbatim>\<open>EbmStatistics::ComputeNodeSplittingScore\<close> (EbmStatisticUtils.h);
  \<^item> the double addition \<^verbatim>\<open>+=\<close> and the conversion
    \<^verbatim>\<open>static_cast<FloatEbmType>\<close> of a \<^verbatim>\<open>size_t\<close>;
  \<^item> what \<^verbatim>\<open>malloc\<close> answers for the \<^verbatim>\<open>CachedInteractionThreadResources\<close>
    object and for the byte buffer.
\<close>

record env =
  GetHistogramBucketSizeOverflow :: "bool \<Rightarrow> size_t \<Rightarrow> bool"
  GetHistogramBucketSize :: "bool \<Rightarrow> size_t \<Rightarrow> size_t"
  TensorTotalsSum :: "EbmInteractionState \<Rightarrow> Feature list \<Rightarrow> size_t \<Rightarrow> size_t \<Rightarrow> size_t \<Rightarrow> HistogramBucket"
  ComputeNodeSplittingScore :: "FloatEbmType \<Rightarrow> FloatEbmType \<Rightarrow> FloatEbmType"
  float_plus :: "FloatEbmType \<Rightarrow> FloatEbmType \<Rightarrow> FloatEbmType"
  float_of_size_t :: "size_t \<Rightarrow> FloatEbmType"
  malloc_CachedInteractionThreadResources :: "addr option"
  malloc_ThreadByteBuffer1 :: "addr option"

section \<open>The pair sweep: FindBestInteractionGainPairs\<close>

text \<open>
  One pass of the \<^verbatim>\<open>for(iVector ...)\<close> loop: four calls of
  \<^verbatim>\<open>ComputeNodeSplittingScore\<close>, each added to \<^verbatim>\<open>splittingScore\<close>.
\<close>

definition splittingScore_iVector ::
  "env \<Rightarrow> HistogramBucket \<Rightarrow> HistogramBucket \<Rightarrow> HistogramBucket \<Rightarrow> HistogramBucket
   \<Rightarrow> nat \<Rightarrow> FloatEbmType \<Rightarrow> FloatEbmType" where
  "splittingScore_iVector e pTotalsLowLow pTotalsLowHigh pTotalsHighLow pTotalsHighHigh
       iVector splittingScore =
     float_plus e
       (float_plus e
         (float_plus e
           (float_plus e splittingScore
             (ComputeNodeSplittingScore e
               (m_sumResidualError (m_aHistogramBucketVectorEntry pTotalsLowLow iVector))
               (float_of_size_t e (m_cSamplesInBucket pTotalsLowLow))))
           (ComputeNodeSplittingScore e
             (m_sumResidualError (m_aHistogramBucketVectorEntry pTotalsLowHigh iVector))
             (float_of_size_t e (m_cSamplesInBucket pTotalsLowHigh))))
         (ComputeNodeSplittingScore e
           (m_sumResidualError (m_aHistogramBucketVectorEntry pTotalsHighLow iVector))
           (float_of_size_t e (m_cSamplesInBucket pTotalsHighLow))))
       (ComputeNodeSplittingScore e
         (m_sumResidualError (m_aHistogramBucketVectorEntry pTotalsHighHigh iVector))
         (float_of_size_t e (m_cSamplesInBucket pTotalsHighHigh)))"

text \<open>
  The body of the inner \<^verbatim>\<open>do\<close> loop for one pair \<^verbatim>\<open>(iBin1, iBin2)\<close>: the
  four quadrant totals, each gated by \<^verbatim>\<open>cSamplesRequiredForChildSplitMin\<close>, then the
  comparison \<^verbatim>\<open>!(splittingScore <= bestSplittingScore)\<close>.
\<close>

definition sweep_body ::
  "env \<Rightarrow> EbmInteractionState \<Rightarrow> Feature list \<Rightarrow> size_t \<Rightarrow> size_t
   \<Rightarrow> size_t \<Rightarrow> size_t \<Rightarrow> FloatEbmType \<Rightarrow> FloatEbmType" where
  "sweep_body e pEbmInteractionState pFeatureGroup cSamplesRequiredForChildSplitMin
       cVectorLength iBin1 iBin2 bestSplittingScore =
     (let pTotalsLowLow = TensorTotalsSum e pEbmInteractionState pFeatureGroup iBin1 iBin2 0 in
      if cSamplesRequiredForChildSplitMin \<le> m_cSamplesInBucket pTotalsLowLow then
        (let pTotalsLowHigh = TensorTotalsSum e pEbmInteractionState pFeatureGroup iBin1 iBin2 2 in
         if cSamplesRequiredForChildSplitMin \<le> m_cSamplesInBucket pTotalsLowHigh then
           (let pTotalsHighLow = TensorTotalsSum e pEbmInteractionState pFeatureGroup iBin1 iBin2 1 in
            if cSamplesRequiredForChildSplitMin \<le> m_cSamplesInBucket pTotalsHighLow then
              (let pTotalsHighHigh = TensorTotalsSum e pEbmInteractionState pFeatureGroup iBin1 iBin2 3 in
               if cSamplesRequiredForChildSplitMin \<le> m_cSamplesInBucket pTotalsHighHigh then
                 (let splittingScore =
                        fold (splittingScore_iVector e pTotalsLowLow pTotalsLowHigh
                                pTotalsHighLow pTotalsHighHigh)
                          [0 ..< unat cVectorLength] (Finite 0) in
                  if \<not> float_le splittingScore bestSplittingScore then splittingScore
                  else bestSplittingScore)
               else bestSplittingScore)
            else bestSplittingScore)
         else bestSplittingScore)
      else bestSplittingScore)"

text \<open>
  The two \<^verbatim>\<open>do { ... ++iBin; } while(iBin < cBinsDimension - 1)\<close> loops.  The
  subtraction wraps for a dimension of 0 bins, as in the source.
\<close>

function sweep_iBin2 ::
  "(size_t \<Rightarrow> size_t \<Rightarrow> FloatEbmType \<Rightarrow> FloatEbmType) \<Rightarrow> size_t \<Rightarrow> size_t \<Rightarrow> size_t
   \<Rightarrow> FloatEbmType \<Rightarrow> FloatEbmType" where
  "sweep_iBin2 body cBinsDimension2 iBin1 iBin2 bestSplittingScore =
     (if iBin2 + 1 < cBinsDimension2 - 1
      then sweep_iBin2 body cBinsDimension2 iBin1 (iBin2 + 1)
             (body iBin1 iBin2 bestSplittingScore)
      else body iBin1 iBin2 bestSplittingScore)"
  by pat_completeness auto
termination
proof (relation "measure (\<lambda>(body, cBinsDimension2, iBin1, iBin2, bestSplittingScore).
                   unat (cBinsDimension2 - 1 - 1 - iBin2))")
  show "wf (measure (\<lambda>(body :: size_t \<Rightarrow> size_t \<Rightarrow> FloatEbmType \<Rightarrow> FloatEbmType,
                       cBinsDimension2 :: size_t, iBin1 :: size_t, iBin2 :: size_t,
                       bestSplittingScore :: FloatEbmType).
                   unat (cBinsDimension2 - 1 - 1 - iBin2)))"
    by simp
next
  fix body :: "size_t \<Rightarrow> size_t \<Rightarrow> FloatEbmType \<Rightarrow> FloatEbmType"
    and cBinsDimension2 iBin1 iBin2 :: size_t and bestSplittingScore :: FloatEbmType
  assume less: "iBin2 + 1 < cBinsDimension2 - 1"
  define x where "x = cBinsDimension2 - 1 - 1 - iBin2"
  have e2: "cBinsDimension2 - 1 - 1 - (iBin2 + 1) = x - 1"
    by (simp add: x_def)
  have "x \<noteq> 0"
  proof
    assume z: "x = 0"
    have "cBinsDimension2 - 1 = x + (iBin2 + 1)"
      by (simp add: x_def)
    also have "\<dots> = iBin2 + 1"
      by (simp only: z add_0)
    finally have e: "cBinsDimension2 - 1 = iBin2 + 1" .
    from less [unfolded e] show False
      by (rule less_irrefl [THEN notE])
  qed
  then have "unat (x - 1) < unat x"
    by (simp add: unat_minus_one unat_gt_0)
  then have "unat (cBinsDimension2 - 1 - 1 - (iBin2 + 1)) < unat (cBinsDimension2 - 1 - 1 - iBin2)"
    by (simp only: e2 x_def [symmetric])
  then show "((body, cBinsDimension2, iBin1, iBin2 + 1, body iBin1 iBin2 bestSplittingScore),
          (body, cBinsDimension2, iBin1, iBin2, bestSplittingScore))
        \<in> measure (\<lambda>(body, cBinsDimension2, iBin1, iBin2, bestSplittingScore).
                     unat (cBinsDimension2 - 1 - 1 - iBin2))"
    by (simp only: in_measure prod.case)
qed

declare sweep_iBin2.simps [simp del]

function sweep_iBin1 ::
  "(size_t \<Rightarrow> size_t \<Rightarrow> FloatEbmType \<Rightarrow> FloatEbmType) \<Rightarrow> size_t \<Rightarrow> size_t \<Rightarrow> size_t
   \<Rightarrow> FloatEbmType \<Rightarrow> FloatEbmType" where
  "sweep_iBin1 body cBinsDimension1 cBinsDimension2 iBin1 bestSplittingScore =
     (if iBin1 + 1 < cBinsDimension1 - 1
      then sweep_iBin1 body cBinsDimension1 cBinsDimension2 (iBin1 + 1)
             (sweep_iBin2 body cBinsDimension2 iBin1 0 bestSplittingScore)
      else sweep_iBin2 body cBinsDimension2 iBin1 0 bestSplittingScore)"
  by pat_completeness auto
termination
proof (relation "measure (\<lambda>(body, cBinsDimension1, cBinsDimension2, iBin1, bestSplittingScore).
                   unat (cBinsDimension1 - 1 - 1 - iBin1))")
  show "wf (measure (\<lambda>(body :: size_t \<Rightarrow> size_t \<Rightarrow> FloatEbmType \<Rightarrow> FloatEbmType,
                       cBinsDimension1 :: size_t, cBinsDimension2 :: size_t, iBin1 :: size_t,
                       bestSplittingScore :: FloatEbmType).
                   unat (cBinsDimension1 - 1 - 1 - iBin1)))"
    by simp
next
  fix body :: "size_t \<Rightarrow> size_t \<Rightarrow> FloatEbmType \<Rightarrow> FloatEbmType"
    and cBinsDimension1 cBinsDimension2 iBin1 :: size_t and bestSplittingScore :: FloatEbmType
  assume less: "iBin1 + 1 < cBinsDimension1 - 1"
  define x where "x = cBinsDimension1 - 1 - 1 - iBin1"
  have e2: "cBinsDimension1 - 1 - 1 - (iBin1 + 1) = x - 1"
    by (simp add: x_def)
  have "x \<noteq> 0"
  proof
    assume z: "x = 0"
    have "cBinsDimension1 - 1 = x + (iBin1 + 1)"
      by (simp add: x_def)
    also have "\<dots> = iBin1 + 1"
      by (simp only: z add_0)
    finally have e: "cBinsDimension1 - 1 = iBin1 + 1" .
    from less [unfolded e] show False
      by (rule less_irrefl [THEN notE])
  qed
  then have "unat (x - 1) < unat x"
    by (simp add: unat_minus_one unat_gt_0)
  then have "unat (cBinsDimension1 - 1 - 1 - (iBin1 + 1)) < unat (cBinsDimension1 - 1 - 1 - iBin1)"
    by (simp only: e2 x_def [symmetric])
  then show "((body, cBinsDimension1, cBinsDimension2, iBin1 + 1,
           sweep_iBin2 body cBinsDimension2 iBin1 0 bestSplittingScore),
          (body, cBinsDimension1, cBinsDimension2, iBin1, bestSplittingScore))
        \<in> measure (\<lambda>(body, cBinsDimension1, cBinsDimension2, iBin1, bestSplittingScore).
                     unat (cBinsDimension1 - 1 - 1 - iBin1))"
    by (simp only: in_measure prod.case)
qed

declare sweep_iBin1.simps [simp del]

text \<open>
  \<^verbatim>\<open>FindBestInteractionGainPairsInternal<compilerLearningTypeOrCountTargetClasses>::Func\<close>
\<close>

definition FindBestInteractionGainPairsInternal ::
  "env \<Rightarrow> ptrdiff_t \<Rightarrow> EbmInteractionState \<Rightarrow> Feature list \<Rightarrow> size_t \<Rightarrow> FloatEbmType" where
  "FindBestInteractionGainPairsInternal e compilerLearningTypeOrCountTargetClasses
       pEbmInteractionState pFeatureGroup cSamplesRequiredForChildSplitMin =
     (let learningTypeOrCountTargetClasses =
            GET_LEARNING_TYPE_OR_COUNT_TARGET_CLASSES compilerLearningTypeOrCountTargetClasses
              (GetRuntimeLearningTypeOrCountTargetClasses pEbmInteractionState);
          cVectorLength = GetVectorLength learningTypeOrCountTargetClasses;
          cBinsDimension1 = GetCountBins (pFeatureGroup ! 0);
          cBinsDimension2 = GetCountBins (pFeatureGroup ! 1)
      in sweep_iBin1
           (sweep_body e pEbmInteractionState pFeatureGroup cSamplesRequiredForChildSplitMin
              cVectorLength)
           cBinsDimension1 cBinsDimension2 0 (Finite 0))"

text \<open>
  The class-count dispatch.  Makevars builds with \<^verbatim>\<open>EBM_NATIVE_R\<close>, so
  \<^verbatim>\<open>k_cCompilerOptimizedTargetClassesMax\<close> is 2: the template
  \<^verbatim>\<open>FindBestInteractionGainPairsTarget\<close> is instantiated at 2 and, specialised,
  at 3.
\<close>

definition k_cCompilerOptimizedTargetClassesMax :: ptrdiff_t where
  "k_cCompilerOptimizedTargetClassesMax = 2"

definition FindBestInteractionGainPairsTarget_3 ::
  "env \<Rightarrow> EbmInteractionState \<Rightarrow> Feature list \<Rightarrow> size_t \<Rightarrow> FloatEbmType" where
  "FindBestInteractionGainPairsTarget_3 e pEbmInteractionState pFeatureGroup
       cSamplesRequiredForChildSplitMin =
     FindBestInteractionGainPairsInternal e k_dynamicClassification pEbmInteractionState
       pFeatureGroup cSamplesRequiredForChildSplitMin"

definition FindBestInteractionGainPairsTarget_2 ::
  "env \<Rightarrow> EbmInteractionState \<Rightarrow> Feature list \<Rightarrow> size_t \<Rightarrow> FloatEbmType" where
  "FindBestInteractionGainPairsTarget_2 e pEbmInteractionState pFeatureGroup
       cSamplesRequiredForChildSplitMin =
     (if 2 = GetRuntimeLearningTypeOrCountTargetClasses pEbmInteractionState
      then FindBestInteractionGainPairsInternal e 2 pEbmInteractionState pFeatureGroup
             cSamplesRequiredForChildSplitMin
      else FindBestInteractionGainPairsTarget_3 e pEbmInteractionState pFeatureGroup
             cSamplesRequiredForChildSplitMin)"

definition FindBestInteractionGainPairs ::
  "env \<Rightarrow> EbmInteractionState \<Rightarrow> Feature list \<Rightarrow> size_t \<Rightarrow> FloatEbmType" where
  "FindBestInteractionGainPairs e pEbmInteractionState pFeatureGroup
       cSamplesRequiredForChildSplitMin =
     (if IsClassification (GetRuntimeLearningTypeOrCountTargetClasses pEbmInteractionState)
      then FindBestInteractionGainPairsTarget_2 e pEbmInteractionState pFeatureGroup
             cSamplesRequiredForChildSplitMin
      else FindBestInteractionGainPairsInternal e k_regression pEbmInteractionState
             pFeatureGroup cSamplesRequiredForChildSplitMin)"

section \<open>CalculateInteractionScoreInternal\<close>

text \<open>
  The feature group the entry point builds on its stack is the list of the features its
  entries point to; \<^verbatim>\<open>GetCountFeatures()\<close> is the list's length (at most
  \<^verbatim>\<open>k_cDimensionsMax\<close> when the entry point built it).
\<close>

type_synonym FeatureGroup = "Feature list"

definition FeatureGroup_GetCountFeatures :: "FeatureGroup \<Rightarrow> size_t" where
  "FeatureGroup_GetCountFeatures pFeatureGroup = of_nat (length pFeatureGroup)"

text \<open>
  The \<^verbatim>\<open>for(iDimension ...)\<close> loop over the group's features, from the values
  of \<^verbatim>\<open>cAuxillaryBucketsForBuildFastTotals\<close> and \<^verbatim>\<open>cTotalBucketsMainSpace\<close>
  before it; \<open>None\<close> is the \<^verbatim>\<open>return true\<close> after
  \<^verbatim>\<open>IsMultiplyError(cTotalBucketsMainSpace, cBins)\<close>.
\<close>

fun count_buckets :: "FeatureGroup \<Rightarrow> size_t \<Rightarrow> size_t \<Rightarrow> (size_t \<times> size_t) option" where
  "count_buckets [] cAuxillaryBucketsForBuildFastTotals cTotalBucketsMainSpace =
     Some (cAuxillaryBucketsForBuildFastTotals, cTotalBucketsMainSpace)"
| "count_buckets (entry # entries) cAuxillaryBucketsForBuildFastTotals cTotalBucketsMainSpace =
     (if IsMultiplyError cTotalBucketsMainSpace (GetCountBins entry) then None
      else count_buckets entries
             (cAuxillaryBucketsForBuildFastTotals + cTotalBucketsMainSpace)
             (cTotalBucketsMainSpace * GetCountBins entry))"

definition cAuxillaryBucketsForSplitting :: size_t where
  "cAuxillaryBucketsForSplitting = 4"

text \<open>
  The sizing of the scratch buffer, up to \<^verbatim>\<open>cBytesBuffer\<close>: \<open>None\<close> is any
  of the four \<^verbatim>\<open>return true\<close> on an overflow check, \<open>Some cBytesBuffer\<close> the
  number of bytes then asked of \<^verbatim>\<open>GetThreadByteBuffer1\<close>.
\<close>

definition cBytesBuffer_of :: "env \<Rightarrow> EbmInteractionState \<Rightarrow> FeatureGroup \<Rightarrow> size_t option" where
  "cBytesBuffer_of e pEbmInteractionState pFeatureGroup =
     (let runtimeLearningTypeOrCountTargetClasses =
            GetRuntimeLearningTypeOrCountTargetClasses pEbmInteractionState;
          bClassification = IsClassification runtimeLearningTypeOrCountTargetClasses
      in case count_buckets pFeatureGroup 0 1 of
           None \<Rightarrow> None
         | Some (cAuxillaryBucketsForBuildFastTotals, cTotalBucketsMainSpace) \<Rightarrow>
             (let cAuxillaryBuckets =
                    (if cAuxillaryBucketsForBuildFastTotals < cAuxillaryBucketsForSplitting
                     then cAuxillaryBucketsForSplitting
                     else cAuxillaryBucketsForBuildFastTotals)
              in if IsAddError cTotalBucketsMainSpace cAuxillaryBuckets then None
                 else
                   (let cTotalBuckets = cTotalBucketsMainSpace + cAuxillaryBuckets;
                        cVectorLength = GetVectorLength runtimeLearningTypeOrCountTargetClasses
                    in if GetHistogramBucketSizeOverflow e bClassification cVectorLength
                       then None
                       else
                         (let cBytesPerHistogramBucket =
                                GetHistogramBucketSize e bClassification cVectorLength
                          in if IsMultiplyError cTotalBuckets cBytesPerHistogramBucket
                             then None
                             else Some (cTotalBuckets * cBytesPerHistogramBucket)))))"

text \<open>
  The post-filter of the best splitting score before it is stored: NaN and anything
  from \<^verbatim>\<open>numeric_limits::max()\<close> up become 0.
\<close>

definition filter_score :: "FloatEbmType \<Rightarrow> FloatEbmType" where
  "filter_score bestSplittingScore =
     (if isnan bestSplittingScore \<or> float_le FloatEbmType_max bestSplittingScore
      then Finite 0 else bestSplittingScore)"

text \<open>
  A \<^verbatim>\<open>FloatEbmType *\<close> is \<open>None\<close> for \<^verbatim>\<open>nullptr\<close> and otherwise holds the
  value now stored at its target.  \<open>store p v\<close> is
  \<^verbatim>\<open>if(nullptr != p) { *p = v; }\<close>.
\<close>

definition store :: "FloatEbmType option \<Rightarrow> FloatEbmType \<Rightarrow> FloatEbmType option" where
  "store p v = (case p of None \<Rightarrow> None | Some old \<Rightarrow> Some v)"

text \<open>
  The function returns \<^verbatim>\<open>true\<close> on failure.  Next to it the model returns the
  target of \<^verbatim>\<open>pInteractionScoreReturn\<close>, the thread resources and the heap as the
  call leaves them.

  Between the allocation and the sweep the source writes into the buffer.  The zeroing
  loop \<^verbatim>\<open>for(size_t i = 0; i < cTotalBuckets; ++i)\<close> zeroes
  \<^verbatim>\<open>cTotalBuckets\<close> buckets of \<^verbatim>\<open>cBytesPerHistogramBucket\<close> bytes each from
  \<^verbatim>\<open>aHistogramBuckets\<close> on, which is \<^verbatim>\<open>cBytesBuffer\<close> bytes, the product
  having passed its overflow check.  \<^verbatim>\<open>BinInteraction\<close>,
  \<^verbatim>\<open>TensorTotalsBuild\<close> and the sweep then work on these same buckets, the main
  space and the auxiliary zone behind it.  The source never compares
  \<^verbatim>\<open>cBytesBuffer\<close> with the size of the block that
  \<^verbatim>\<open>GetThreadByteBuffer1\<close> handed back: when that block is shorter, the zeroing
  loop writes past its end, and the call has no result (\<open>None\<close>).  The contents of
  the buckets are not kept in the heap of the model; what the three calls leave there
  reaches the result through \<open>TensorTotalsSum e\<close>.
\<close>

definition CalculateInteractionScoreInternal ::
  "env \<Rightarrow> CachedInteractionThreadResources \<Rightarrow> heap \<Rightarrow> EbmInteractionState \<Rightarrow> FeatureGroup
   \<Rightarrow> size_t \<Rightarrow> FloatEbmType option
   \<Rightarrow> (bool \<times> FloatEbmType option \<times> CachedInteractionThreadResources \<times> heap) option" where
  "CalculateInteractionScoreInternal e pCachedThreadResources h pEbmInteractionState
       pFeatureGroup cSamplesRequiredForChildSplitMin pInteractionScoreReturn =
     (case cBytesBuffer_of e pEbmInteractionState pFeatureGroup of
        None \<Rightarrow> Some (True, pInteractionScoreReturn, pCachedThreadResources, h)
      | Some cBytesBuffer \<Rightarrow>
          (case GetThreadByteBuffer1 (malloc_ThreadByteBuffer1 e) cBytesBuffer
                  pCachedThreadResources h of
             (None, pCachedThreadResources', h') \<Rightarrow>
               Some (True, pInteractionScoreReturn, pCachedThreadResources', h')
           | (Some aHistogramBuckets, pCachedThreadResources', h') \<Rightarrow>
               if \<not> block_holds h' aHistogramBuckets (unat cBytesBuffer)
               then None
               else if 2 = FeatureGroup_GetCountFeatures pFeatureGroup
               then Some (False,
                          store pInteractionScoreReturn
                            (filter_score
                               (FindBestInteractionGainPairs e pEbmInteractionState
                                  pFeatureGroup cSamplesRequiredForChildSplitMin)),
                          pCachedThreadResources', h')
               else Some (False, store pInteractionScoreReturn (Finite 0),
                          pCachedThreadResources', h')))"

section \<open>CalculateInteractionScore\<close>

definition static_cast_size_t :: "IntEbmType \<Rightarrow> size_t" where
  "static_cast_size_t number = ucast number"

text \<open>
  \<^verbatim>\<open>cSamplesRequiredForChildSplitMin\<close> as the entry point derives it from its
  argument, for a \<^verbatim>\<open>size_t\<close> of any width (\<open>- 1\<close> is that width's maximum).
\<close>

definition cSamplesRequiredForChildSplitMin_of :: "IntEbmType \<Rightarrow> 'a::len word" where
  "cSamplesRequiredForChildSplitMin_of countSamplesRequiredForChildSplitMin =
     (if 1 \<le> sint countSamplesRequiredForChildSplitMin
      then (if \<not> IsNumberConvertable countSamplesRequiredForChildSplitMin (- 1 :: 'a word)
            then - 1
            else ucast countSamplesRequiredForChildSplitMin)
      else 1)"

text \<open>
  The first \<^verbatim>\<open>do\<close> loop over the feature indexes: \<open>Some ret\<close> when it returns
  \<^verbatim>\<open>ret\<close> (after storing 0 through a non-null \<^verbatim>\<open>interactionScoreOut\<close>),
  \<open>None\<close> when every index passed.
\<close>

fun check_featureIndexes :: "EbmInteractionState \<Rightarrow> IntEbmType list \<Rightarrow> IntEbmType option" where
  "check_featureIndexes pEbmInteractionState [] = None"
| "check_featureIndexes pEbmInteractionState (indexFeatureInterop # rest) =
     (if sint indexFeatureInterop < 0 then Some 1
      else if \<not> IsNumberConvertable indexFeatureInterop size_t_max then Some 1
      else if GetCountFeatures pEbmInteractionState \<le> static_cast_size_t indexFeatureInterop
      then Some 1
      else if GetCountBins
                (GetFeatures pEbmInteractionState ! unat (static_cast_size_t indexFeatureInterop))
              \<le> 1
      then Some 0
      else check_featureIndexes pEbmInteractionState rest)"

text \<open>The second \<^verbatim>\<open>do\<close> loop: the feature group for the checked indexes.\<close>

definition make_FeatureGroup :: "EbmInteractionState \<Rightarrow> IntEbmType list \<Rightarrow> FeatureGroup" where
  "make_FeatureGroup pEbmInteractionState indexes =
     map (\<lambda>indexFeatureInterop.
            GetFeatures pEbmInteractionState ! unat (static_cast_size_t indexFeatureInterop))
       indexes"

record Outcome =
  returned :: IntEbmType
  score_out :: "FloatEbmType option"
  heap_out :: heap

text \<open>
  The exported entry point.  \<^verbatim>\<open>featureIndexes\<close> is \<open>None\<close> for a null pointer
  and otherwise the array it points to, of which the first
  \<^verbatim>\<open>countFeaturesInGroup\<close> entries are read.  The call has a result, \<open>Some\<close> of
  what it returns and leaves behind, unless
  \<^verbatim>\<open>CalculateInteractionScoreInternal\<close> has none.
\<close>

definition CalculateInteractionScore ::
  "env \<Rightarrow> EbmInteractionState option \<Rightarrow> IntEbmType \<Rightarrow> IntEbmType list option \<Rightarrow> IntEbmType
   \<Rightarrow> FloatEbmType option \<Rightarrow> heap \<Rightarrow> Outcome option" where
  "CalculateInteractionScore e ebmInteraction countFeaturesInGroup featureIndexes
       countSamplesRequiredForChildSplitMin interactionScoreOut h =
     (case ebmInteraction of
        None \<Rightarrow>
          Some \<lparr>returned = 1, score_out = store interactionScoreOut (Finite 0), heap_out = h\<rparr>
      | Some pEbmInteractionState \<Rightarrow>
          if sint countFeaturesInGroup < 0
          then Some \<lparr>returned = 1, score_out = store interactionScoreOut (Finite 0),
                     heap_out = h\<rparr>
          else if 0 \<noteq> countFeaturesInGroup \<and> featureIndexes = None
          then Some \<lparr>returned = 1, score_out = store interactionScoreOut (Finite 0),
                     heap_out = h\<rparr>
          else if \<not> IsNumberConvertable countFeaturesInGroup size_t_max
          then Some \<lparr>returned = 1, score_out = store interactionScoreOut (Finite 0),
                     heap_out = h\<rparr>
          else if 0 = static_cast_size_t countFeaturesInGroup
          then Some \<lparr>returned = 0, score_out = store interactionScoreOut (Finite 0),
                     heap_out = h\<rparr>
          else if 0 = GetCountSamples pEbmInteractionState
          then Some \<lparr>returned = 0, score_out = store interactionScoreOut (Finite 0),
                     heap_out = h\<rparr>
          else
            (case featureIndexes of
               None \<Rightarrow>
                 Some \<lparr>returned = 1, score_out = store interactionScoreOut (Finite 0),
                       heap_out = h\<rparr>
             | Some aFeatureIndexes \<Rightarrow>
                 (let cFeaturesInGroup = static_cast_size_t countFeaturesInGroup;
                      cSamplesRequiredForChildSplitMin =
                        cSamplesRequiredForChildSplitMin_of countSamplesRequiredForChildSplitMin;
                      indexes = take (unat cFeaturesInGroup) aFeatureIndexes
                  in case check_featureIndexes pEbmInteractionState indexes of
                       Some ret \<Rightarrow>
                         Some \<lparr>returned = ret, score_out = store interactionScoreOut (Finite 0),
                               heap_out = h\<rparr>
                     | None \<Rightarrow>
                         if k_cDimensionsMax < cFeaturesInGroup
                         then Some \<lparr>returned = 1, score_out = interactionScoreOut,
                                    heap_out = h\<rparr>
                         else if 0 = GetRuntimeLearningTypeOrCountTargetClasses pEbmInteractionState
                                \<or> 1 = GetRuntimeLearningTypeOrCountTargetClasses pEbmInteractionState
                         then Some \<lparr>returned = 0,
                                    score_out = store interactionScoreOut (Finite 0),
                                    heap_out = h\<rparr>
                         else
                           (case Allocate (malloc_CachedInteractionThreadResources e) h of
                              (None, h1) \<Rightarrow>
                                Some \<lparr>returned = 1, score_out = interactionScoreOut,
                                      heap_out = h1\<rparr>
                            | (Some (pCachedThreadResources, resources), h1) \<Rightarrow>
                                (case CalculateInteractionScoreInternal e resources h1
                                        pEbmInteractionState
                                        (make_FeatureGroup pEbmInteractionState indexes)
                                        cSamplesRequiredForChildSplitMin interactionScoreOut of
                                   None \<Rightarrow> None
                                 | Some (failed, interactionScoreOut', resources', h2) \<Rightarrow>
                                     Some \<lparr>returned = (if failed then 1 else 0),
                                           score_out = interactionScoreOut',
                                           heap_out =
                                             Free (pCachedThreadResources, resources') h2\<rparr>)))))"

section \<open>Creating the interaction state\<close>

text \<open>
  \<^verbatim>\<open>EbmNativeFeature\<close> as InteractionDetection.cpp reads it.  The constants are
  those of ebm_native.h, which is not among the sources: the two feature types equal
  the values of \<^verbatim>\<open>enum class FeatureType\<close> by the \<^verbatim>\<open>static_assert\<close>s of
  \<^verbatim>\<open>EbmInteractionState::Allocate\<close>.
\<close>

record EbmNativeFeature =
  featureType :: IntEbmType
  hasMissing :: IntEbmType
  countBins :: IntEbmType

definition FeatureTypeOrdinal :: IntEbmType where
  "FeatureTypeOrdinal = 0"

definition FeatureTypeNominal :: IntEbmType where
  "FeatureTypeNominal = 1"

text \<open>
  Modelled from the spec: \<^verbatim>\<open>EBM_FALSE\<close> and \<^verbatim>\<open>EBM_TRUE\<close> of ebm_native.h
  (not among the sources), from the wire format \<^verbatim>\<open>has_missing: i32 (0 or 1)\<close>.
\<close>

definition EBM_FALSE :: IntEbmType where
  "EBM_FALSE = 0"

definition EBM_TRUE :: IntEbmType where
  "EBM_TRUE = 1"

definition static_cast_FeatureType :: "IntEbmType \<Rightarrow> FeatureType" where
  "static_cast_FeatureType t = (if t = FeatureTypeOrdinal then Ordinal else Nominal)"

text \<open>
  The \<^verbatim>\<open>do\<close> loop of \<^verbatim>\<open>EbmInteractionState::Allocate\<close> over the native
  features, from index \<^verbatim>\<open>iFeatureInitialize\<close> on: \<open>None\<close> is any of its
  \<^verbatim>\<open>return nullptr\<close>.
\<close>

fun initialize_features :: "size_t \<Rightarrow> EbmNativeFeature list \<Rightarrow> size_t \<Rightarrow> Feature list option" where
  "initialize_features cSamples [] iFeatureInitialize = Some []"
| "initialize_features cSamples (pFeatureInitialize # rest) iFeatureInitialize =
     (if FeatureTypeOrdinal \<noteq> featureType pFeatureInitialize
         \<and> FeatureTypeNominal \<noteq> featureType pFeatureInitialize
      then None
      else if sint (countBins pFeatureInitialize) < 0 then None
      else if 0 = countBins pFeatureInitialize \<and> 0 \<noteq> cSamples then None
      else if \<not> IsNumberConvertable (countBins pFeatureInitialize) size_t_max then None
      else if EBM_FALSE \<noteq> hasMissing pFeatureInitialize
              \<and> EBM_TRUE \<noteq> hasMissing pFeatureInitialize
      then None
      else
        (case initialize_features cSamples rest (iFeatureInitialize + 1) of
           None \<Rightarrow> None
         | Some aFeatures \<Rightarrow>
             Some (\<lparr>m_cBins = static_cast_size_t (countBins pFeatureInitialize),
                    m_iFeatureData = iFeatureInitialize,
                    m_featureType = static_cast_FeatureType (featureType pFeatureInitialize),
                    m_bMissing = (EBM_FALSE \<noteq> hasMissing pFeatureInitialize)\<rparr>
                   # aFeatures)))"

text \<open>
  What creation depends on outside the sources: whether the two \<^verbatim>\<open>EbmMalloc\<close>
  calls succeed and whether \<^verbatim>\<open>m_dataSet.Initialize\<close> reports an error.  The
  memory of the state is not tracked.
\<close>

record create_env =
  EbmMalloc_Feature_ok :: bool
  EbmMalloc_EbmInteractionState_ok :: bool
  m_dataSet_Initialize_error :: bool

text \<open>
  Modelled from the spec: \<^verbatim>\<open>DataSetByFeature::Initialize\<close> (DataSetInteraction.cpp
  is not among the sources) keeps the sample count it is given, which
  \<^verbatim>\<open>GetCountSamples()\<close> returns (the data set holds, for N samples, the bin
  indices, the targets and the prior scores).
\<close>

definition m_dataSet_Initialize_cSamples :: "size_t \<Rightarrow> size_t" where
  "m_dataSet_Initialize_cSamples cSamples = cSamples"

definition EbmInteractionState_Allocate ::
  "create_env \<Rightarrow> ptrdiff_t \<Rightarrow> size_t \<Rightarrow> EbmNativeFeature list option \<Rightarrow> size_t
   \<Rightarrow> EbmInteractionState option" where
  "EbmInteractionState_Allocate ce runtimeLearningTypeOrCountTargetClasses cFeatures
       aNativeFeatures cSamples =
     (case (if 0 \<noteq> cFeatures
            then (if \<not> EbmMalloc_Feature_ok ce then None
                  else (case aNativeFeatures of
                          None \<Rightarrow> None
                        | Some features \<Rightarrow>
                            initialize_features cSamples (take (unat cFeatures) features) 0))
            else Some []) of
        None \<Rightarrow> None
      | Some aFeatures \<Rightarrow>
          if \<not> EbmMalloc_EbmInteractionState_ok ce then None
          else if m_dataSet_Initialize_error ce then None
          else Some \<lparr>m_runtimeLearningTypeOrCountTargetClasses =
                        runtimeLearningTypeOrCountTargetClasses,
                      m_cFeatures = cFeatures,
                      m_aFeatures = aFeatures,
                      m_dataSet_cSamples = m_dataSet_Initialize_cSamples cSamples\<rparr>)"

text \<open>
  \<^verbatim>\<open>AllocateInteraction\<close>.  The three data pointers are \<open>None\<close> for
  \<^verbatim>\<open>nullptr\<close>; their arrays are read by \<^verbatim>\<open>m_dataSet.Initialize\<close> only.
\<close>

definition AllocateInteraction ::
  "create_env \<Rightarrow> IntEbmType \<Rightarrow> EbmNativeFeature list option \<Rightarrow> ptrdiff_t \<Rightarrow> IntEbmType
   \<Rightarrow> 't list option \<Rightarrow> IntEbmType list option \<Rightarrow> FloatEbmType list option
   \<Rightarrow> EbmInteractionState option" where
  "AllocateInteraction ce countFeatures features runtimeLearningTypeOrCountTargetClasses
       countSamples targets binnedData predictorScores =
     (if sint countFeatures < 0 then None
      else if 0 \<noteq> countFeatures \<and> features = None then None
      else if sint countSamples < 0 then None
      else if 0 \<noteq> countSamples \<and> targets = None then None
      else if 0 \<noteq> countSamples \<and> 0 \<noteq> countFeatures \<and> binnedData = None then None
      else if 0 \<noteq> countSamples \<and> predictorScores = None then None
      else if \<not> IsNumberConvertable countFeatures size_t_max then None
      else if \<not> IsNumberConvertable countSamples size_t_max then None
      else EbmInteractionState_Allocate ce runtimeLearningTypeOrCountTargetClasses
             (static_cast_size_t countFeatures) features (static_cast_size_t countSamples))"

definition InitializeInteractionClassification ::
  "create_env \<Rightarrow> IntEbmType \<Rightarrow> IntEbmType \<Rightarrow> EbmNativeFeature list option \<Rightarrow> IntEbmType
   \<Rightarrow> IntEbmType list option \<Rightarrow> IntEbmType list option \<Rightarrow> FloatEbmType list option
   \<Rightarrow> EbmInteractionState option" where
  "InitializeInteractionClassification ce countTargetClasses countFeatures features
       countSamples binnedData targets predictorScores =
     (if sint countTargetClasses < 0 then None
      else if 0 = countTargetClasses \<and> 0 \<noteq> countSamples then None
      else if \<not> IsNumberConvertable_ptrdiff_t countTargetClasses then None
      else AllocateInteraction ce countFeatures features countTargetClasses countSamples
             targets binnedData predictorScores)"

section \<open>Notions used in the statements\<close>

text \<open>A double that is NaN or at least 0, as the sweep's assertions put it.\<close>

definition nonneg_or_nan :: "FloatEbmType \<Rightarrow> bool" where
  "nonneg_or_nan x = (isnan x \<or> float_le (Finite 0) x)"

text \<open>
  What the statements about the sign of a score ask of the arithmetic that is not among
  the sources: \<^verbatim>\<open>ComputeNodeSplittingScore\<close> returns NaN or a value that is at
  least 0 (the source asserts it after each call), and the sum of two such doubles is
  again NaN or at least 0.
\<close>

definition arithmetic_ok :: "env \<Rightarrow> bool" where
  "arithmetic_ok e =
     ((\<forall>sumResidualError cSamples.
          nonneg_or_nan (ComputeNodeSplittingScore e sumResidualError cSamples))
      \<and> (\<forall>a b. nonneg_or_nan a \<longrightarrow> nonneg_or_nan b \<longrightarrow> nonneg_or_nan (float_plus e a b)))"

text \<open>
  The bucket counts of the sizing loop computed without overflow, over the natural
  numbers: from the bin counts, the auxiliary count for building the totals and the
  size of the main tensor.
\<close>

fun exact_buckets :: "nat list \<Rightarrow> nat \<Rightarrow> nat \<Rightarrow> nat \<times> nat" where
  "exact_buckets [] cAuxillary cMain = (cAuxillary, cMain)"
| "exact_buckets (cBins # rest) cAuxillary cMain =
     exact_buckets rest (cAuxillary + cMain) (cMain * cBins)"

definition bins_of :: "FeatureGroup \<Rightarrow> nat list" where
  "bins_of pFeatureGroup = map (\<lambda>pFeature. unat (GetCountBins pFeature)) pFeatureGroup"

text \<open>A feature index the first loop of the entry point accepts.\<close>

definition valid_featureIndex :: "EbmInteractionState \<Rightarrow> IntEbmType \<Rightarrow> bool" where
  "valid_featureIndex pEbmInteractionState indexFeatureInterop =
     (0 \<le> sint indexFeatureInterop
      \<and> static_cast_size_t indexFeatureInterop < GetCountFeatures pEbmInteractionState)"

text \<open>
  A feature index that passes the first loop altogether: valid, and of a feature with
  at least 2 bins.
\<close>

definition usable_featureIndex :: "EbmInteractionState \<Rightarrow> IntEbmType \<Rightarrow> bool" where
  "usable_featureIndex pEbmInteractionState indexFeatureInterop =
     (valid_featureIndex pEbmInteractionState indexFeatureInterop
      \<and> 2 \<le> unat (GetCountBins
                    (GetFeatures pEbmInteractionState
                       ! unat (static_cast_size_t indexFeatureInterop))))"

text \<open>A native feature that the creation loop accepts, for a data set of \<open>cSamples\<close>.\<close>

definition native_feature_ok :: "size_t \<Rightarrow> EbmNativeFeature \<Rightarrow> bool" where
  "native_feature_ok cSamples f =
     ((featureType f = FeatureTypeOrdinal \<or> featureType f = FeatureTypeNominal)
      \<and> 0 \<le> sint (countBins f)
      \<and> (countBins f = 0 \<longrightarrow> cSamples = 0)
      \<and> (hasMissing f = EBM_FALSE \<or> hasMissing f = EBM_TRUE))"

text \<open>
  Arguments with which creation goes through once the class count is accepted: counts
  that are not negative, native features the creation loop accepts, the data pointers
  non-null where there are samples, and both allocations and the data set's
  initialisation succeeding.
\<close>

definition creation_args_ok ::
  "create_env \<Rightarrow> IntEbmType \<Rightarrow> EbmNativeFeature list option \<Rightarrow> IntEbmType
   \<Rightarrow> IntEbmType list option \<Rightarrow> IntEbmType list option \<Rightarrow> FloatEbmType list option \<Rightarrow> bool" where
  "creation_args_ok ce countFeatures features countSamples binnedData targets predictorScores =
     (0 \<le> sint countFeatures \<and> 0 \<le> sint countSamples
      \<and> (countFeatures \<noteq> 0 \<longrightarrow>
            (case features of
               None \<Rightarrow> False
             | Some fs \<Rightarrow>
                 list_all (native_feature_ok (static_cast_size_t countSamples))
                   (take (unat (static_cast_size_t countFeatures)) fs)))
      \<and> (countSamples \<noteq> 0 \<longrightarrow>
            targets \<noteq> None \<and> predictorScores \<noteq> None
            \<and> (countFeatures \<noteq> 0 \<longrightarrow> binnedData \<noteq> None))
      \<and> EbmMalloc_Feature_ok ce \<and> EbmMalloc_EbmInteractionState_ok ce
      \<and> \<not> m_dataSet_Initialize_error ce)"

section \<open>Example inputs\<close>

text \<open>
  Concrete inputs for the closed theorems below.  The example environment sizes a
  bucket as 8 bytes for the count plus 8 (regression) or 16 (classification) bytes per
  vector entry, answers every quadrant query with one sample of residual 1 or -1 (the
  four-sample XOR data set), computes a node's score as the squared sum over the count
  and adds finite doubles exactly.
\<close>

definition example_bucket :: "size_t \<Rightarrow> real \<Rightarrow> HistogramBucket" where
  "example_bucket n g =
     \<lparr>m_cSamplesInBucket = n,
      m_aHistogramBucketVectorEntry = (\<lambda>iVector. \<lparr>m_sumResidualError = Finite g\<rparr>)\<rparr>"

definition example_env :: env where
  "example_env =
     \<lparr>GetHistogramBucketSizeOverflow = (\<lambda>bClassification cVectorLength. False),
      GetHistogramBucketSize =
        (\<lambda>bClassification cVectorLength. 8 + (if bClassification then 16 else 8) * cVectorLength),
      TensorTotalsSum =
        (\<lambda>s g iBin1 iBin2 directionVector.
           example_bucket 1 (if directionVector = 0 \<or> directionVector = 3 then 1 else - 1)),
      ComputeNodeSplittingScore =
        (\<lambda>sumResidualError cSamples.
           case (sumResidualError, cSamples) of
             (Finite a, Finite c) \<Rightarrow> if c \<le> 0 then NaN else Finite (a * a / c)
           | _ \<Rightarrow> NaN),
      float_plus =
        (\<lambda>a b. case (a, b) of (Finite x, Finite y) \<Rightarrow> Finite (x + y) | _ \<Rightarrow> NaN),
      float_of_size_t = (\<lambda>n. Finite (real (unat n))),
      malloc_CachedInteractionThreadResources = Some 1,
      malloc_ThreadByteBuffer1 = Some 2\<rparr>"

text \<open>
  The example environment in a numeric breakdown: every node scores \<open>x\<close>, whatever its
  sums, and the addition treats NaN and the infinities as IEEE-754 does.
\<close>

fun example_plus :: "FloatEbmType \<Rightarrow> FloatEbmType \<Rightarrow> FloatEbmType" where
  "example_plus NaN b = NaN"
| "example_plus a NaN = NaN"
| "example_plus (Finite x) (Finite y) = Finite (x + y)"
| "example_plus PosInf NegInf = NaN"
| "example_plus NegInf PosInf = NaN"
| "example_plus PosInf b = PosInf"
| "example_plus a PosInf = PosInf"
| "example_plus NegInf b = NegInf"
| "example_plus a NegInf = NegInf"

definition example_env_breakdown :: "FloatEbmType \<Rightarrow> env" where
  "example_env_breakdown x =
     example_env
       \<lparr>ComputeNodeSplittingScore := (\<lambda>sumResidualError cSamples. x),
        float_plus := example_plus\<rparr>"

definition example_feature :: "size_t \<Rightarrow> size_t \<Rightarrow> Feature" where
  "example_feature cBins iFeatureData =
     \<lparr>m_cBins = cBins, m_iFeatureData = iFeatureData, m_featureType = Ordinal,
      m_bMissing = False\<rparr>"

definition example_state :: "ptrdiff_t \<Rightarrow> size_t list \<Rightarrow> size_t \<Rightarrow> EbmInteractionState" where
  "example_state classes bins cSamples =
     \<lparr>m_runtimeLearningTypeOrCountTargetClasses = classes,
      m_cFeatures = of_nat (length bins),
      m_aFeatures = map (\<lambda>(cBins, i). example_feature cBins (of_nat i)) (zip bins [0 ..< length bins]),
      m_dataSet_cSamples = cSamples\<rparr>"


definition example_create_env :: create_env where
  "example_create_env =
     \<lparr>EbmMalloc_Feature_ok = True, EbmMalloc_EbmInteractionState_ok = True,
      m_dataSet_Initialize_error = False\<rparr>"

definition example_native_feature :: "IntEbmType \<Rightarrow> EbmNativeFeature" where
  "example_native_feature bins =
     \<lparr>featureType = FeatureTypeOrdinal, hasMissing = EBM_FALSE, countBins = bins\<rparr>"

section \<open>Facts about the overflow checks\<close>

lemma size_t_max_unat: "unat size_t_max = 2 ^ 64 - 1"
  by (simp add: size_t_max_def unsigned_minus_1_eq_mask mask_eq_exp_minus_1)

lemma IsAddError_iff: "IsAddError a b \<longleftrightarrow> 2 ^ 64 \<le> unat a + unat b"
proof -
  have la: "unat a < 2 ^ 64" and lb: "unat b < 2 ^ 64"
    using unsigned_less [of a] unsigned_less [of b] by simp_all
  have s: "unat (a + b) = (unat a + unat b) mod 2 ^ 64"
    by (simp add: unat_word_ariths)
  show ?thesis
  proof (cases "unat a + unat b < 2 ^ 64")
    case True
    then have "unat (a + b) = unat a + unat b"
      using s by simp
    then show ?thesis
      using True by (simp add: IsAddError_def word_less_nat_alt)
  next
    case False
    then have "unat (a + b) = unat a + unat b - 2 ^ 64"
      using s la lb by (simp add: mod_if)
    then show ?thesis
      using False lb by (simp add: IsAddError_def word_less_nat_alt)
  qed
qed

lemma unat_neg_size_t:
  fixes a :: size_t
  assumes "a \<noteq> 0"
  shows "unat (size_t_max - a + 1) = 2 ^ 64 - unat a"
proof -
  have pos: "0 < unat a"
    using assms by (simp add: unat_gt_0)
  have "size_t_max - a + 1 = 0 - a"
    unfolding size_t_max_def by simp
  then have "unat (size_t_max - a + 1) = unat (0 - a)"
    by (rule arg_cong)
  also have "\<dots> = 2 ^ 64 - unat a"
    unfolding unat_sub_if_size word_size using pos by simp
  finally show ?thesis .
qed

lemma IsMultiplyError_iff:
  "IsMultiplyError a b \<longleftrightarrow> a \<noteq> 0 \<and> 2 ^ 64 - unat a < unat b * unat a"
proof (cases "a = 0")
  case True
  then show ?thesis by (simp add: IsMultiplyError_def)
next
  case False
  then have pos: "0 < unat a"
    by (simp add: unat_gt_0)
  have "unat ((size_t_max - a + 1) div a) = (2 ^ 64 - unat a) div unat a"
    using False by (simp add: unat_div unat_neg_size_t)
  then show ?thesis
    using False pos
    by (simp add: IsMultiplyError_def word_less_nat_alt div_less_iff_less_mult)
qed

lemma IsMultiplyError_overflow:
  assumes "2 ^ 64 \<le> unat a * unat b"
  shows "IsMultiplyError a b"
proof -
  have "a \<noteq> 0"
    using assms by (cases "a = 0") simp_all
  then have "0 < unat a"
    by (simp add: unat_gt_0)
  then have "2 ^ 64 - unat a < unat b * unat a"
    using assms by (simp add: mult.commute)
  then show ?thesis
    using \<open>a \<noteq> 0\<close> by (simp add: IsMultiplyError_iff)
qed

lemma no_IsMultiplyError_exact:
  assumes "\<not> IsMultiplyError a b"
  shows "unat (a * b) = unat a * unat b"
proof (cases "a = 0")
  case True
  then show ?thesis by simp
next
  case False
  then have pos: "0 < unat a"
    by (simp add: unat_gt_0)
  have la: "unat a < 2 ^ 64"
    using unsigned_less [of a] by simp
  have "unat b * unat a \<le> 2 ^ 64 - unat a"
    using assms False by (simp add: IsMultiplyError_iff)
  then have "unat a * unat b < 2 ^ 64"
    using pos la by (simp add: mult.commute)
  then show ?thesis
    by (simp add: unat_word_ariths)
qed

lemma no_IsAddError_exact:
  assumes "\<not> IsAddError a b"
  shows "unat (a + b) = unat a + unat b"
  using assms by (simp add: IsAddError_iff unat_word_ariths)

lemma unat_size_t_less: "unat (w :: size_t) < 2 ^ 64"
  using unsigned_less [of w, where 'a = nat] by simp

lemma k_cBitsForSizeT_eq: "k_cBitsForSizeT = 64"
  unfolding k_cBitsForSizeT_def size_t_max_def
  by code_simp

lemma k_cDimensionsMax_eq: "k_cDimensionsMax = 63"
  by (simp add: k_cDimensionsMax_def k_cBitsForSizeT_eq)

lemma IsNumberConvertable_size_t: "IsNumberConvertable x size_t_max \<longleftrightarrow> 0 \<le> sint x"
proof -
  have "sint x < 2 ^ 63"
    using sint_lt [of x] by simp
  moreover have "uint size_t_max = 2 ^ 64 - 1"
    by (simp add: size_t_max_def unsigned_minus_1_eq_mask mask_eq_exp_minus_1)
  ultimately show ?thesis
    by (auto simp: IsNumberConvertable_def)
qed

text \<open>The definitions a closed theorem unfolds to run the model on an example.\<close>

lemmas eval_defs =
  CalculateInteractionScore_def CalculateInteractionScoreInternal_def cBytesBuffer_of_def
  example_env_def example_env_breakdown_def example_state_def example_feature_def
  example_bucket_def
  store_def filter_score_def FloatEbmType_max_def static_cast_size_t_def
  cSamplesRequiredForChildSplitMin_of_def IsNumberConvertable_def size_t_max_def
  GetCountSamples_def GetCountFeatures_def GetFeatures_def GetCountBins_def
  GetRuntimeLearningTypeOrCountTargetClasses_def make_FeatureGroup_def
  FeatureGroup_GetCountFeatures_def cAuxillaryBucketsForSplitting_def
  IsMultiplyError_def IsAddError_def IsClassification_def GetVectorLength_def
  k_regression_def k_dynamicClassification_def GET_LEARNING_TYPE_OR_COUNT_TARGET_CLASSES_def
  Allocate_def Free_def GetThreadByteBuffer1_def EbmMalloc_void_def malloc_def free_def
  block_holds_def
  InitializeZero_def sizeof_CachedInteractionThreadResources_def
  FindBestInteractionGainPairs_def FindBestInteractionGainPairsTarget_2_def
  FindBestInteractionGainPairsTarget_3_def FindBestInteractionGainPairsInternal_def
  sweep_body_def splittingScore_iVector_def Let_def k_cDimensionsMax_eq
  sweep_iBin1.simps sweep_iBin2.simps word_le_nat_alt unsigned_minus_1_eq_mask
  mask_eq_exp_minus_1

section \<open>The sizing is exact when it succeeds\<close>

lemma count_buckets_exact:
  assumes "count_buckets g aux tot = Some (aux', tot')"
    and "\<forall>f \<in> set g. 2 \<le> unat (GetCountBins f)"
    and "unat aux < unat tot"
  shows "(unat aux', unat tot') = exact_buckets (bins_of g) (unat aux) (unat tot)
         \<and> unat aux' < unat tot'"
  using assms
proof (induction g arbitrary: aux tot)
  case Nil
  then show ?case by (simp add: bins_of_def)
next
  case (Cons f g)
  let ?b = "GetCountBins f"
  from Cons.prems(1) have nomul: "\<not> IsMultiplyError tot ?b"
    and rest: "count_buckets g (aux + tot) (tot * ?b) = Some (aux', tot')"
    by (auto split: if_splits)
  have b2: "2 \<le> unat ?b"
    using Cons.prems(2) by simp
  have mul: "unat (tot * ?b) = unat tot * unat ?b"
    using nomul by (rule no_IsMultiplyError_exact)
  have lt: "unat tot * unat ?b < 2 ^ 64"
    using mul unat_size_t_less [of "tot * ?b"] by simp
  have "unat aux + unat tot < 2 * unat tot"
    using Cons.prems(3) by simp
  also have "\<dots> \<le> unat tot * unat ?b"
    using b2 by (simp add: mult.commute)
  finally have sum_lt: "unat aux + unat tot < unat tot * unat ?b" .
  then have add: "unat (aux + tot) = unat aux + unat tot"
    using lt by (simp add: unat_word_ariths)
  have inv: "unat (aux + tot) < unat (tot * ?b)"
    using sum_lt add mul by simp
  have "\<forall>f \<in> set g. 2 \<le> unat (GetCountBins f)"
    using Cons.prems(2) by simp
  from Cons.IH [OF rest this inv] show ?case
    by (simp add: bins_of_def add mul)
qed

lemma cBytesBuffer_of_exact:
  assumes some: "cBytesBuffer_of e s g = Some cBytesBuffer"
    and bins: "\<forall>f \<in> set g. 2 \<le> unat (GetCountBins f)"
  shows "unat cBytesBuffer =
           (snd (exact_buckets (bins_of g) 0 1) + max 4 (fst (exact_buckets (bins_of g) 0 1)))
           * unat (GetHistogramBucketSize e
                     (IsClassification (GetRuntimeLearningTypeOrCountTargetClasses s))
                     (GetVectorLength (GetRuntimeLearningTypeOrCountTargetClasses s)))
         \<and> (snd (exact_buckets (bins_of g) 0 1) + max 4 (fst (exact_buckets (bins_of g) 0 1)))
           * unat (GetHistogramBucketSize e
                     (IsClassification (GetRuntimeLearningTypeOrCountTargetClasses s))
                     (GetVectorLength (GetRuntimeLearningTypeOrCountTargetClasses s))) < 2 ^ 64
         \<and> snd (exact_buckets (bins_of g) 0 1) + max 4 (fst (exact_buckets (bins_of g) 0 1)) < 2 ^ 64
         \<and> \<not> GetHistogramBucketSizeOverflow e
                     (IsClassification (GetRuntimeLearningTypeOrCountTargetClasses s))
                     (GetVectorLength (GetRuntimeLearningTypeOrCountTargetClasses s))"
proof -
  let ?size = "GetHistogramBucketSize e
                     (IsClassification (GetRuntimeLearningTypeOrCountTargetClasses s))
                     (GetVectorLength (GetRuntimeLearningTypeOrCountTargetClasses s))"
  from some obtain aux tot where cb: "count_buckets g 0 1 = Some (aux, tot)"
    by (auto simp: cBytesBuffer_of_def Let_def split: option.splits)
  define cAux where "cAux = (if aux < cAuxillaryBucketsForSplitting then cAuxillaryBucketsForSplitting else aux)"
  from some cb have noadd: "\<not> IsAddError tot cAux"
    and noovf: "\<not> GetHistogramBucketSizeOverflow e
                     (IsClassification (GetRuntimeLearningTypeOrCountTargetClasses s))
                     (GetVectorLength (GetRuntimeLearningTypeOrCountTargetClasses s))"
    and nomul: "\<not> IsMultiplyError (tot + cAux) ?size"
    and res: "cBytesBuffer = (tot + cAux) * ?size"
    by (auto simp: cBytesBuffer_of_def Let_def cAux_def split: if_splits)
  have ex: "(unat aux, unat tot) = exact_buckets (bins_of g) 0 1"
    using count_buckets_exact [OF cb bins] by simp
  have aux_eq: "unat cAux = max 4 (unat aux)"
    by (simp add: cAux_def cAuxillaryBucketsForSplitting_def word_less_nat_alt max_def)
  have toteq: "unat (tot + cAux) = unat tot + unat cAux"
    using noadd by (rule no_IsAddError_exact)
  have byt: "unat ((tot + cAux) * ?size) = unat (tot + cAux) * unat ?size"
    using nomul by (rule no_IsMultiplyError_exact)
  have f: "fst (exact_buckets (bins_of g) 0 1) = unat aux"
    and sn: "snd (exact_buckets (bins_of g) 0 1) = unat tot"
    using ex by (metis fst_conv, metis snd_conv)
  have l1: "unat (tot + cAux) < 2 ^ 64"
    by (rule unat_size_t_less)
  have l2: "unat ((tot + cAux) * ?size) < 2 ^ 64"
    by (rule unat_size_t_less)
  show ?thesis
    unfolding f sn res using noovf l1 l2 by (simp add: byt toteq aux_eq)
qed

section \<open>The sign of the best splitting score\<close>

lemma splittingScore_iVector_nn:
  assumes "arithmetic_ok e" and "nonneg_or_nan x"
  shows "nonneg_or_nan (splittingScore_iVector e ll lh hl hh i x)"
  using assms by (simp add: splittingScore_iVector_def arithmetic_ok_def)

lemma fold_splittingScore_nn:
  assumes "arithmetic_ok e" and "nonneg_or_nan x"
  shows "nonneg_or_nan (fold (splittingScore_iVector e ll lh hl hh) is x)"
  using assms(2)
proof (induction "is" arbitrary: x)
  case Nil
  then show ?case by simp
next
  case (Cons i "is")
  then show ?case
    by (simp add: splittingScore_iVector_nn [OF assms(1)])
qed

lemma sweep_body_nn:
  assumes "arithmetic_ok e" and "nonneg_or_nan best"
  shows "nonneg_or_nan (sweep_body e s g cMin cVec i1 i2 best)"
proof -
  have z: "nonneg_or_nan (Finite 0)"
    by (simp add: nonneg_or_nan_def)
  show ?thesis
    using assms(2) fold_splittingScore_nn [OF assms(1) z]
    by (simp add: sweep_body_def Let_def)
qed

lemma sweep_iBin2_nn:
  assumes "\<forall>i1 i2 b. nonneg_or_nan b \<longrightarrow> nonneg_or_nan (body i1 i2 b)"
    and "nonneg_or_nan best"
  shows "nonneg_or_nan (sweep_iBin2 body c2 i1 i2 best)"
  using assms
proof (induction body c2 i1 i2 best rule: sweep_iBin2.induct)
  case (1 body c2 i1 i2 best)
  have step: "nonneg_or_nan (body i1 i2 best)"
    using "1.prems" by simp
  show ?case
  proof (cases "i2 + 1 < c2 - 1")
    case True
    then show ?thesis
      using "1.IH" [OF True "1.prems"(1) step]
      by (subst sweep_iBin2.simps) simp
  next
    case False
    then show ?thesis
      using step
      by (subst sweep_iBin2.simps) simp
  qed
qed

lemma sweep_iBin1_nn:
  assumes "\<forall>i1 i2 b. nonneg_or_nan b \<longrightarrow> nonneg_or_nan (body i1 i2 b)"
    and "nonneg_or_nan best"
  shows "nonneg_or_nan (sweep_iBin1 body c1 c2 i1 best)"
  using assms
proof (induction body c1 c2 i1 best rule: sweep_iBin1.induct)
  case (1 body c1 c2 i1 best)
  have inner: "nonneg_or_nan (sweep_iBin2 body c2 i1 0 best)"
    using "1.prems" by (rule sweep_iBin2_nn)
  show ?case
  proof (cases "i1 + 1 < c1 - 1")
    case True
    then show ?thesis
      using "1.IH" [OF True "1.prems"(1) inner]
      by (subst sweep_iBin1.simps) simp
  next
    case False
    then show ?thesis
      using inner
      by (subst sweep_iBin1.simps) simp
  qed
qed

lemma FindBestInteractionGainPairsInternal_nn:
  assumes "arithmetic_ok e"
  shows "nonneg_or_nan (FindBestInteractionGainPairsInternal e k s g cMin)"
proof -
  have z: "nonneg_or_nan (Finite 0)"
    by (simp add: nonneg_or_nan_def)
  show ?thesis
    unfolding FindBestInteractionGainPairsInternal_def Let_def
    using sweep_body_nn [OF assms] z by (intro sweep_iBin1_nn) simp_all
qed

lemma FindBestInteractionGainPairs_nn:
  assumes "arithmetic_ok e"
  shows "nonneg_or_nan (FindBestInteractionGainPairs e s g cMin)"
  by (simp add: FindBestInteractionGainPairs_def FindBestInteractionGainPairsTarget_2_def
      FindBestInteractionGainPairsTarget_3_def FindBestInteractionGainPairsInternal_nn [OF assms])

lemma filter_score_range:
  "\<not> isnan (filter_score best) \<and> float_less (filter_score best) FloatEbmType_max"
  by (cases best) (auto simp: filter_score_def FloatEbmType_max_def)

lemma filter_score_nonneg:
  assumes "nonneg_or_nan best"
  shows "float_le (Finite 0) (filter_score best)"
  using assms
  by (cases best) (auto simp: filter_score_def nonneg_or_nan_def)

lemma Internal_score_pair:
  assumes "2 = FeatureGroup_GetCountFeatures g"
    and "CalculateInteractionScoreInternal e r h s g cMin out = Some (False, out', r', h')"
  shows "out' = store out (filter_score (FindBestInteractionGainPairs e s g cMin))"
  using assms
  by (auto simp: CalculateInteractionScoreInternal_def split: option.splits prod.splits if_splits)

lemma Internal_score_not_pair:
  assumes "2 \<noteq> FeatureGroup_GetCountFeatures g"
    and "CalculateInteractionScoreInternal e r h s g cMin out = Some (False, out', r', h')"
  shows "out' = store out (Finite 0)"
  using assms
  by (auto simp: CalculateInteractionScoreInternal_def split: option.splits prod.splits if_splits)


section \<open>Paths through the entry point\<close>

lemma uint_eq_sint:
  fixes x :: "64 word"
  assumes "0 \<le> sint x"
  shows "uint x = sint x"
proof -
  have "sint x < 2 ^ 64"
    using sint_lt [of x] by simp
  then have "take_bit 64 (sint x) = sint x"
    using assms by (simp add: take_bit_int_eq_self)
  then show ?thesis
    using uint_sint [of x] by simp
qed

lemma le_63_iff:
  fixes x :: "64 word"
  assumes "0 \<le> sint x"
  shows "k_cDimensionsMax < x \<longleftrightarrow> 63 < sint x"
proof -
  have "k_cDimensionsMax < x \<longleftrightarrow> 63 < uint x"
    by (simp add: k_cDimensionsMax_eq word_less_def)
  then show ?thesis
    using uint_eq_sint [OF assms] by simp
qed

lemma check_featureIndexes_usable:
  "check_featureIndexes s xs = None \<longleftrightarrow> (\<forall>i \<in> set xs. usable_featureIndex s i)"
proof (induction xs)
  case Nil
  then show ?case by simp
next
  case (Cons i xs)
  have "2 \<le> unat w \<longleftrightarrow> \<not> w \<le> 1" for w :: size_t
    by (auto simp: word_le_nat_alt)
  then show ?case
    using Cons
    by (auto simp: usable_featureIndex_def valid_featureIndex_def IsNumberConvertable_size_t)
qed

lemma check_featureIndexes_degenerate:
  assumes "k < length xs"
    and "\<forall>j \<le> k. valid_featureIndex s (xs ! j)"
    and "GetCountBins (GetFeatures s ! unat (static_cast_size_t (xs ! k))) \<le> 1"
  shows "check_featureIndexes s xs = Some 0"
  using assms
proof (induction xs arbitrary: k)
  case Nil
  then show ?case by simp
next
  case (Cons i xs)
  have vi: "valid_featureIndex s i"
    using Cons.prems(2) by (auto dest: spec [of _ 0])
  show ?case
  proof (cases k)
    case 0
    then show ?thesis
      using Cons.prems(3) vi
      by (auto simp: valid_featureIndex_def IsNumberConvertable_size_t)
  next
    case (Suc k')
    have "k' < length xs"
      using Cons.prems(1) Suc by simp
    moreover have "\<forall>j \<le> k'. valid_featureIndex s (xs ! j)"
    proof (intro allI impI)
      fix j assume "j \<le> k'"
      then have "Suc j \<le> k" using Suc by simp
      then have "valid_featureIndex s ((i # xs) ! Suc j)"
        using Cons.prems(2) by blast
      then show "valid_featureIndex s (xs ! j)" by simp
    qed
    moreover have "GetCountBins (GetFeatures s ! unat (static_cast_size_t (xs ! k'))) \<le> 1"
      using Cons.prems(3) Suc by simp
    ultimately have "check_featureIndexes s xs = Some 0"
      by (rule Cons.IH)
    then show ?thesis
      using vi by (auto simp: valid_featureIndex_def IsNumberConvertable_size_t)
  qed
qed

lemma CalculateInteractionScore_scoring:
  assumes "0 < sint D" and "sint D \<le> 63" and "GetCountSamples s \<noteq> 0"
    and "check_featureIndexes s (take (unat D) a) = None"
    and "GetRuntimeLearningTypeOrCountTargetClasses s \<noteq> 0"
    and "GetRuntimeLearningTypeOrCountTargetClasses s \<noteq> 1"
  shows "CalculateInteractionScore e (Some s) D (Some a) m out h =
           (case Allocate (malloc_CachedInteractionThreadResources e) h of
              (None, h1) \<Rightarrow> Some \<lparr>returned = 1, score_out = out, heap_out = h1\<rparr>
            | (Some (pCachedThreadResources, resources), h1) \<Rightarrow>
                (case CalculateInteractionScoreInternal e resources h1 s
                        (make_FeatureGroup s (take (unat D) a))
                        (cSamplesRequiredForChildSplitMin_of m) out of
                   None \<Rightarrow> None
                 | Some (failed, out', resources', h2) \<Rightarrow>
                     Some \<lparr>returned = (if failed then 1 else 0), score_out = out',
                           heap_out = Free (pCachedThreadResources, resources') h2\<rparr>))"
proof -
  have nn: "0 \<le> sint D" using assms(1) by simp
  have a1: "\<not> sint D < 0" using assms(1) by simp
  have a2: "D \<noteq> 0" using assms(1) by auto
  have a3: "IsNumberConvertable D size_t_max"
    using nn by (simp add: IsNumberConvertable_size_t)
  have a4: "\<not> k_cDimensionsMax < D"
    using le_63_iff [OF nn] assms(2) by simp
  show ?thesis
    using a1 a2 a3 a4 assms(3-6)
    by (simp add: CalculateInteractionScore_def static_cast_size_t_def Let_def)
qed

lemma CalculateInteractionScore_degenerate:
  assumes "0 < sint D" and "check_featureIndexes s (take (unat D) a) = Some 0"
  shows "CalculateInteractionScore e (Some s) D (Some a) m out h =
           Some \<lparr>returned = 0, score_out = store out (Finite 0), heap_out = h\<rparr>"
proof -
  have nn: "0 \<le> sint D" using assms(1) by simp
  have a1: "\<not> sint D < 0" using assms(1) by simp
  have a2: "D \<noteq> 0" using assms(1) by auto
  have a3: "IsNumberConvertable D size_t_max"
    using nn by (simp add: IsNumberConvertable_size_t)
  show ?thesis
    using a1 a2 a3 assms(2)
    by (simp add: CalculateInteractionScore_def static_cast_size_t_def Let_def)
qed

lemma bins_of_make_FeatureGroup:
  assumes "\<forall>i \<in> set xs. usable_featureIndex s i"
  shows "\<forall>f \<in> set (make_FeatureGroup s xs). 2 \<le> unat (GetCountBins f)"
  using assms by (auto simp: make_FeatureGroup_def usable_featureIndex_def)


lemma example_features [simp]:
  "GetFeatures (example_state c [b0, b1] n) = [example_feature b0 0, example_feature b1 1]"
  "GetCountFeatures (example_state c [b0, b1] n) = 2"
  "GetCountSamples (example_state c bs n) = n"
  "GetRuntimeLearningTypeOrCountTargetClasses (example_state c bs n) = c"
  "GetCountBins (example_feature b i) = b"
  by (simp_all add: example_state_def GetFeatures_def GetCountFeatures_def GetCountSamples_def
      GetRuntimeLearningTypeOrCountTargetClasses_def GetCountBins_def example_feature_def)

lemma example_usable:
  assumes "2 \<le> unat b0" and "2 \<le> unat b1"
  shows "usable_featureIndex (example_state c [b0, b1] n) 0"
    and "usable_featureIndex (example_state c [b0, b1] n) 1"
  using assms
  by (simp_all add: usable_featureIndex_def valid_featureIndex_def static_cast_size_t_def)


section \<open>The clamp, the arena and the remaining paths\<close>

lemma clamp_small:
  assumes "sint m < 1"
  shows "(cSamplesRequiredForChildSplitMin_of m :: 'a::len word) = 1"
  using assms by (simp add: cSamplesRequiredForChildSplitMin_of_def)

lemma uint_minus_1: "uint (- 1 :: 'a::len word) = 2 ^ LENGTH('a) - 1"
  by (simp add: unsigned_minus_1_eq_mask mask_eq_exp_minus_1)

lemma clamp_large:
  assumes "uint (- 1 :: 'a::len word) < sint m"
  shows "(cSamplesRequiredForChildSplitMin_of m :: 'a word) = - 1"
proof -
  have p: "(1 :: int) \<le> 2 ^ LENGTH('a)" by simp
  have "2 ^ LENGTH('a) - 1 < sint m" using assms by (simp add: uint_minus_1)
  then have "1 \<le> sint m" using p by linarith
  then show ?thesis
    using assms by (simp add: cSamplesRequiredForChildSplitMin_of_def IsNumberConvertable_def)
qed

lemma clamp_mid:
  assumes "1 \<le> sint m" and "sint m \<le> uint (- 1 :: 'a::len word)"
  shows "uint (cSamplesRequiredForChildSplitMin_of m :: 'a word) = sint m"
proof -
  have nn: "0 \<le> sint m" using assms(1) by simp
  have "(cSamplesRequiredForChildSplitMin_of m :: 'a word) = ucast m"
    using assms nn by (simp add: cSamplesRequiredForChildSplitMin_of_def IsNumberConvertable_def)
  moreover have "uint (ucast m :: 'a word) = take_bit LENGTH('a) (uint m)"
    by (simp add: unsigned_ucast_eq)
  moreover have "uint m = sint m"
    using nn uint_eq_sint by blast
  moreover have "sint m < 2 ^ LENGTH('a)"
    using assms(2) by (simp add: uint_minus_1)
  ultimately show ?thesis
    using nn by (simp add: take_bit_int_eq_self)
qed

lemma GetThreadByteBuffer1_enough:
  assumes "cBytesRequired \<le> m_cThreadByteBufferCapacity1 this"
  shows "GetThreadByteBuffer1 answer cBytesRequired this h = (m_aThreadByteBuffer1 this, this, h)"
  using assms by (simp add: GetThreadByteBuffer1_def not_less [symmetric])

lemma GetThreadByteBuffer1_grow:
  assumes "m_cThreadByteBufferCapacity1 this < cBytesRequired"
  shows "GetThreadByteBuffer1 answer cBytesRequired this h =
           (answer,
            \<lparr>m_aThreadByteBuffer1 = answer,
             m_cThreadByteBufferCapacity1 = push_bit 1 cBytesRequired\<rparr>,
            (case answer of
               None \<Rightarrow> free (m_aThreadByteBuffer1 this) h
             | Some p \<Rightarrow> (free (m_aThreadByteBuffer1 this) h)(p \<mapsto> unat (push_bit 1 cBytesRequired :: size_t))))"
  using assms
  by (simp add: GetThreadByteBuffer1_def EbmMalloc_void_def malloc_def split: option.splits)

lemma unat_doubled:
  fixes n :: size_t
  assumes "unat n < 2 ^ 63"
  shows "unat (push_bit 1 n) = 2 * unat n"
proof -
  have "push_bit 1 n = n * 2"
    by (simp add: push_bit_eq_mult)
  moreover have "unat (n * 2) = unat n * unat (2 :: size_t)"
    using assms by (subst unat_mult_lem [symmetric]) simp
  ultimately show ?thesis
    by simp
qed

lemma GetThreadByteBuffer1_arena_ok:
  assumes "arena_ok this h"
    and "GetThreadByteBuffer1 answer cBytesRequired this h = (aBuffer, this', h')"
  shows "arena_ok this' h' \<and> aBuffer = m_aThreadByteBuffer1 this'"
  using assms
  by (auto simp: GetThreadByteBuffer1_def EbmMalloc_void_def malloc_def arena_ok_def
      split: if_splits option.splits)

lemma doubled_holds_iff:
  fixes n :: size_t
  assumes "n \<noteq> 0"
  shows "unat n \<le> unat (push_bit 1 n :: size_t) \<longleftrightarrow> unat n < 2 ^ 63"
proof (cases "unat n < 2 ^ 63")
  case True
  from unat_doubled [OF True] True show ?thesis
    by arith
next
  case False
  have "push_bit 1 n = n * 2"
    by (simp add: push_bit_eq_mult)
  then have "unat (push_bit 1 n :: size_t) = (unat n * 2) mod 2 ^ 64"
    by (simp add: unat_word_ariths)
  moreover have "unat n < 2 ^ 64"
    by (rule unat_size_t_less)
  moreover have "(unat n * 2) mod 2 ^ 64 = unat n * 2 - 2 ^ 64"
    using False \<open>unat n < 2 ^ 64\<close>
    by (simp add: mod_if)
  ultimately show ?thesis
    using False by simp
qed

lemma Internal_fresh:
  assumes "cBytesBuffer_of e s g = Some n" and "n \<noteq> 0"
    and "malloc_ThreadByteBuffer1 e = Some p"
  shows "CalculateInteractionScoreInternal e InitializeZero h s g cMin out =
           (if 2 ^ 63 \<le> unat n then None
            else Some (False,
                       (if 2 = FeatureGroup_GetCountFeatures g
                        then store out (filter_score (FindBestInteractionGainPairs e s g cMin))
                        else store out (Finite 0)),
                       \<lparr>m_aThreadByteBuffer1 = Some p,
                        m_cThreadByteBufferCapacity1 = push_bit 1 n\<rparr>,
                       h(p \<mapsto> unat (push_bit 1 n :: size_t))))"
proof -
  have "0 < n"
    using assms(2) by (simp add: word_greater_zero_iff)
  then have g: "GetThreadByteBuffer1 (Some p) n InitializeZero h =
           (Some p,
            \<lparr>m_aThreadByteBuffer1 = Some p, m_cThreadByteBufferCapacity1 = push_bit 1 n\<rparr>,
            h(p \<mapsto> unat (push_bit 1 n :: size_t)))"
    by (simp add: GetThreadByteBuffer1_def InitializeZero_def EbmMalloc_void_def malloc_def
        free_def)
  show ?thesis
    using doubled_holds_iff [OF assms(2)]
    by (simp add: CalculateInteractionScoreInternal_def assms(1,3) g block_holds_def not_le)
qed

lemma Internal_no_buffer:
  assumes "cBytesBuffer_of e s g = None \<or> cBytesBuffer_of e s g = Some 0
           \<or> malloc_ThreadByteBuffer1 e = None"
  shows "\<exists>r'. CalculateInteractionScoreInternal e InitializeZero h s g cMin out =
                Some (True, out, r', h)
              \<and> m_aThreadByteBuffer1 r' = None"
proof (cases "cBytesBuffer_of e s g")
  case None
  then show ?thesis
    by (simp add: CalculateInteractionScoreInternal_def InitializeZero_def)
next
  case (Some n)
  show ?thesis
  proof (cases "n = 0")
    case True
    then show ?thesis
      using Some
      by (simp add: CalculateInteractionScoreInternal_def GetThreadByteBuffer1_def
          InitializeZero_def)
  next
    case False
    then have "0 < n"
      by (simp add: word_greater_zero_iff)
    moreover have "malloc_ThreadByteBuffer1 e = None"
      using assms Some False by simp
    ultimately show ?thesis
      using Some
      by (simp add: CalculateInteractionScoreInternal_def GetThreadByteBuffer1_def
          InitializeZero_def EbmMalloc_void_def malloc_def free_def)
  qed
qed

lemma Internal_None:
  assumes "CalculateInteractionScoreInternal e InitializeZero h s g cMin out = None"
  shows "\<exists>n. cBytesBuffer_of e s g = Some n \<and> 2 ^ 63 \<le> unat n
             \<and> malloc_ThreadByteBuffer1 e \<noteq> None"
proof (cases "cBytesBuffer_of e s g = None \<or> cBytesBuffer_of e s g = Some 0
           \<or> malloc_ThreadByteBuffer1 e = None")
  case True
  from Internal_no_buffer [OF True, of h cMin out] assms show ?thesis
    by auto
next
  case False
  then obtain n p where n: "cBytesBuffer_of e s g = Some n" "n \<noteq> 0"
    and p: "malloc_ThreadByteBuffer1 e = Some p"
    by auto
  from Internal_fresh [OF n p, of h cMin out] assms n p show ?thesis
    by (auto split: if_splits)
qed

lemma Internal_then_Free:
  assumes w: "w \<notin> dom h"
    and b: "\<forall>p. malloc_ThreadByteBuffer1 e = Some p \<longrightarrow> p \<notin> dom h"
    and r: "CalculateInteractionScoreInternal e InitializeZero (h(w \<mapsto> k)) s g cMin out
              = Some (failed, out', r', h')"
  shows "Free (w, r') h' = h"
proof (cases "cBytesBuffer_of e s g = None \<or> cBytesBuffer_of e s g = Some 0
           \<or> malloc_ThreadByteBuffer1 e = None")
  case True
  from Internal_no_buffer [OF True, of "h(w \<mapsto> k)" cMin out] r
  have "m_aThreadByteBuffer1 r' = None" and "h' = h(w \<mapsto> k)"
    by auto
  then show ?thesis
    using w by (auto simp: Free_def free_def fun_eq_iff domIff)
next
  case False
  then obtain n p where n: "cBytesBuffer_of e s g = Some n" "n \<noteq> 0"
    and p: "malloc_ThreadByteBuffer1 e = Some p"
    by auto
  have pd: "p \<notin> dom h"
    using b p by simp
  from Internal_fresh [OF n p, of "h(w \<mapsto> k)" cMin out] r
  have "r' = \<lparr>m_aThreadByteBuffer1 = Some p, m_cThreadByteBufferCapacity1 = push_bit 1 n\<rparr>"
    and "h' = (h(w \<mapsto> k))(p \<mapsto> unat (push_bit 1 n :: size_t))"
    by (auto split: if_splits)
  then show ?thesis
    using w pd by (auto simp: Free_def free_def fun_eq_iff domIff)
qed

lemma Internal_succeeds:
  assumes "cBytesBuffer_of e s g = Some n" and "n \<noteq> 0" and "unat n < 2 ^ 63"
    and "malloc_ThreadByteBuffer1 e \<noteq> None"
  shows "\<exists>out' r' h'. CalculateInteractionScoreInternal e InitializeZero h s g cMin out
                        = Some (False, out', r', h')"
proof -
  from assms(4) obtain p where p: "malloc_ThreadByteBuffer1 e = Some p"
    by auto
  from Internal_fresh [OF assms(1,2) p, of h cMin out] assms(3) show ?thesis
    by simp
qed

lemma check_featureIndexes_valid:
  assumes "\<forall>i \<in> set xs. valid_featureIndex s i"
  shows "check_featureIndexes s xs = None \<or> check_featureIndexes s xs = Some 0"
  using assms
  by (induction xs) (auto simp: valid_featureIndex_def IsNumberConvertable_size_t)

lemma check_featureIndexes_range:
  assumes "check_featureIndexes s xs = Some ret"
  shows "ret = 0 \<or> ret = 1"
  using assms by (induction xs) (auto split: if_splits)

lemma count_of_group:
  fixes D :: "64 word"
  assumes "unat D \<le> length a"
  shows "FeatureGroup_GetCountFeatures (make_FeatureGroup s (take (unat D) a)) = D"
  using assms by (simp add: FeatureGroup_GetCountFeatures_def make_FeatureGroup_def min_def)

lemma CalculateInteractionScore_early:
  assumes "\<not> (0 < sint D \<and> sint D \<le> 63 \<and> GetCountSamples s \<noteq> 0
              \<and> (\<exists>a. idxs = Some a \<and> check_featureIndexes s (take (unat D) a) = None)
              \<and> GetRuntimeLearningTypeOrCountTargetClasses s \<noteq> 0
              \<and> GetRuntimeLearningTypeOrCountTargetClasses s \<noteq> 1)"
  shows "CalculateInteractionScore e (Some s) D idxs m out h
           = Some \<lparr>returned = 1, score_out = store out (Finite 0), heap_out = h\<rparr>
         \<or> CalculateInteractionScore e (Some s) D idxs m out h
           = Some \<lparr>returned = 0, score_out = store out (Finite 0), heap_out = h\<rparr>
         \<or> CalculateInteractionScore e (Some s) D idxs m out h
           = Some \<lparr>returned = 1, score_out = out, heap_out = h\<rparr>"
proof (cases "sint D < 0")
  case True
  then show ?thesis
    by (simp add: CalculateInteractionScore_def)
next
  case False
  then have nn: "0 \<le> sint D" by simp
  have conv: "IsNumberConvertable D size_t_max"
    using nn by (simp add: IsNumberConvertable_size_t)
  have pos: "0 < sint D \<longleftrightarrow> D \<noteq> 0"
    using nn by (auto simp: less_le signed_eq_0_iff)
  show ?thesis
    using assms False conv pos le_63_iff [OF nn]
    by (auto simp: CalculateInteractionScore_def Let_def static_cast_size_t_def
        split: option.splits dest: check_featureIndexes_range)
qed

lemma Allocate_cases:
  "Allocate answer h =
     (case answer of
        None \<Rightarrow> (None, h)
      | Some w \<Rightarrow> (Some (w, InitializeZero), h(w \<mapsto> sizeof_CachedInteractionThreadResources)))"
  by (simp add: Allocate_def malloc_def split: option.splits)

lemma CalculateInteractionScore_None:
  assumes "CalculateInteractionScore e ctx D idxs m out h = None"
  shows "\<exists>s a n. ctx = Some s \<and> idxs = Some a
             \<and> cBytesBuffer_of e s (make_FeatureGroup s (take (unat D) a)) = Some n
             \<and> 2 ^ 63 \<le> unat n"
proof (cases ctx)
  case None
  then show ?thesis
    using assms by (simp add: CalculateInteractionScore_def)
next
  case (Some s)
  show ?thesis
  proof (cases "0 < sint D \<and> sint D \<le> 63 \<and> GetCountSamples s \<noteq> 0
              \<and> (\<exists>a. idxs = Some a \<and> check_featureIndexes s (take (unat D) a) = None)
              \<and> GetRuntimeLearningTypeOrCountTargetClasses s \<noteq> 0
              \<and> GetRuntimeLearningTypeOrCountTargetClasses s \<noteq> 1")
    case False
    from CalculateInteractionScore_early [OF False, of e m out h] assms Some show ?thesis
      by auto
  next
    case True
    then obtain a where a: "idxs = Some a"
      and chk: "check_featureIndexes s (take (unat D) a) = None"
      by blast
    from True have t: "0 < sint D" "sint D \<le> 63" "GetCountSamples s \<noteq> 0"
      "GetRuntimeLearningTypeOrCountTargetClasses s \<noteq> 0"
      "GetRuntimeLearningTypeOrCountTargetClasses s \<noteq> 1"
      by simp_all
    from assms have "\<exists>h1. CalculateInteractionScoreInternal e InitializeZero h1 s
                         (make_FeatureGroup s (take (unat D) a))
                         (cSamplesRequiredForChildSplitMin_of m) out = None"
      unfolding Some a CalculateInteractionScore_scoring [OF t(1-3) chk t(4,5)] Allocate_cases
      by (auto split: option.splits)
    then show ?thesis
      using Some a by (auto dest: Internal_None)
  qed
qed

lemma initialize_features_ok:
  assumes "list_all (native_feature_ok cSamples) fs"
  shows "\<exists>aFeatures. initialize_features cSamples fs i = Some aFeatures"
  using assms
proof (induction fs arbitrary: i)
  case Nil
  then show ?case by simp
next
  case (Cons f fs)
  then obtain rest where "initialize_features cSamples fs (i + 1) = Some rest"
    by fastforce
  then show ?case
    using Cons.prems
    by (auto simp: native_feature_ok_def IsNumberConvertable_size_t)
qed

lemma InitializeInteractionClassification_accepts:
  assumes "sint countTargetClasses = 1 \<or> (countTargetClasses = 0 \<and> countSamples = 0)"
    and "creation_args_ok ce countFeatures features countSamples binnedData targets
           predictorScores"
  shows "\<exists>s. InitializeInteractionClassification ce countTargetClasses countFeatures features
               countSamples binnedData targets predictorScores = Some s
             \<and> GetRuntimeLearningTypeOrCountTargetClasses s = countTargetClasses"
proof -
  have c0: "\<not> sint countTargetClasses < 0"
    using assms(1) by auto
  have c1: "\<not> (0 = countTargetClasses \<and> 0 \<noteq> countSamples)"
    using assms(1) by auto
  have c2: "IsNumberConvertable_ptrdiff_t countTargetClasses"
    using assms(1) by (auto simp: IsNumberConvertable_ptrdiff_t_def)
  have feats: "\<exists>aFeatures.
      (if 0 \<noteq> static_cast_size_t countFeatures
       then (if \<not> EbmMalloc_Feature_ok ce then None
             else (case features of
                     None \<Rightarrow> None
                   | Some fs \<Rightarrow>
                       initialize_features (static_cast_size_t countSamples)
                         (take (unat (static_cast_size_t countFeatures)) fs) 0))
       else Some []) = Some aFeatures"
  proof (cases "0 \<noteq> static_cast_size_t countFeatures")
    case False
    then show ?thesis by simp
  next
    case True
    then have "countFeatures \<noteq> 0"
      by (auto simp: static_cast_size_t_def)
    then obtain fs where fs: "features = Some fs"
      and ok: "list_all (native_feature_ok (static_cast_size_t countSamples))
                 (take (unat (static_cast_size_t countFeatures)) fs)"
      using assms(2) by (auto simp: creation_args_ok_def split: option.splits)
    from initialize_features_ok [OF ok, of 0] show ?thesis
      using True fs assms(2) by (auto simp: creation_args_ok_def)
  qed
  then obtain aFeatures where af:
      "(if 0 \<noteq> static_cast_size_t countFeatures
       then (if \<not> EbmMalloc_Feature_ok ce then None
             else (case features of
                     None \<Rightarrow> None
                   | Some fs \<Rightarrow>
                       initialize_features (static_cast_size_t countSamples)
                         (take (unat (static_cast_size_t countFeatures)) fs) 0))
       else Some []) = Some aFeatures"
    by blast
  have alloc: "EbmInteractionState_Allocate ce countTargetClasses
                 (static_cast_size_t countFeatures) features (static_cast_size_t countSamples)
               = Some \<lparr>m_runtimeLearningTypeOrCountTargetClasses = countTargetClasses,
                       m_cFeatures = static_cast_size_t countFeatures,
                       m_aFeatures = aFeatures,
                       m_dataSet_cSamples =
                         m_dataSet_Initialize_cSamples (static_cast_size_t countSamples)\<rparr>"
    unfolding EbmInteractionState_Allocate_def af
    using assms(2) by (simp add: creation_args_ok_def)
  have "AllocateInteraction ce countFeatures features countTargetClasses countSamples
          targets binnedData predictorScores
        = EbmInteractionState_Allocate ce countTargetClasses
                 (static_cast_size_t countFeatures) features (static_cast_size_t countSamples)"
    using assms(2)
    by (auto simp: AllocateInteraction_def creation_args_ok_def IsNumberConvertable_size_t)
  then show ?thesis
    using c0 c1 c2 alloc
    by (simp add: InitializeInteractionClassification_def
        GetRuntimeLearningTypeOrCountTargetClasses_def)
qed

lemma degenerate_classes_score_zero:
  assumes "GetRuntimeLearningTypeOrCountTargetClasses s = 0
           \<or> GetRuntimeLearningTypeOrCountTargetClasses s = 1"
    and "0 \<le> sint D" and "sint D \<le> 63"
    and "D \<noteq> 0 \<longrightarrow> (case idxs of None \<Rightarrow> False
                       | Some a \<Rightarrow> list_all (valid_featureIndex s) (take (unat D) a))"
  shows "CalculateInteractionScore e (Some s) D idxs m out h
         = Some \<lparr>returned = 0, score_out = store out (Finite 0), heap_out = h\<rparr>"
proof (cases "D = 0")
  case True
  then show ?thesis
    by (simp add: CalculateInteractionScore_def static_cast_size_t_def
        IsNumberConvertable_size_t)
next
  case False
  then obtain a where a: "idxs = Some a"
    and v: "\<forall>i \<in> set (take (unat D) a). valid_featureIndex s i"
    using assms(4) by (auto simp: list_all_iff split: option.splits)
  have chk: "check_featureIndexes s (take (unat D) a) = None
             \<or> check_featureIndexes s (take (unat D) a) = Some 0"
    using v by (rule check_featureIndexes_valid)
  show ?thesis
    using False a chk assms(1-3) le_63_iff [OF assms(2)]
    by (auto simp: CalculateInteractionScore_def Let_def static_cast_size_t_def
        IsNumberConvertable_size_t)
qed

lemma arithmetic_ok_example_env: "arithmetic_ok example_env"
  by (auto simp: arithmetic_ok_def nonneg_or_nan_def example_env_def
      split: FloatEbmType.splits)

lemma example_xor:
  "CalculateInteractionScore example_env (Some (example_state k_regression [2, 2] 4)) 2
     (Some [0, 1]) 1 (Some NaN) Map.empty
   = Some \<lparr>returned = 0, score_out = Some (Finite 4), heap_out = Map.empty\<rparr>"
  by (simp add: eval_defs)

lemma example_breakdown:
  "CalculateInteractionScore (example_env_breakdown NaN)
     (Some (example_state k_regression [2, 2] 4)) 2 (Some [0, 1]) 1 (Some (Finite 7)) Map.empty
   = Some \<lparr>returned = 0, score_out = Some (Finite 0), heap_out = Map.empty\<rparr>"
  "CalculateInteractionScore (example_env_breakdown PosInf)
     (Some (example_state k_regression [2, 2] 4)) 2 (Some [0, 1]) 1 (Some (Finite 7)) Map.empty
   = Some \<lparr>returned = 0, score_out = Some (Finite 0), heap_out = Map.empty\<rparr>"
  "FindBestInteractionGainPairs (example_env_breakdown NaN)
     (example_state k_regression [2, 2] 4) [example_feature 2 0, example_feature 2 1] 1 = NaN"
  "FindBestInteractionGainPairs (example_env_breakdown PosInf)
     (example_state k_regression [2, 2] 4) [example_feature 2 0, example_feature 2 1] 1 = PosInf"
  "FindBestInteractionGainPairs example_env
     (example_state k_regression [2, 2] 4) [example_feature 2 0, example_feature 2 1] 1
   = Finite 4"
  by (simp_all add: eval_defs)

text \<open>
  The buffer of a single feature of \<open>2 ^ 59\<close> bins with 16-byte buckets takes
  \<open>2 ^ 63 + 64\<close> bytes; the arena hands back a block of 128 bytes, the zeroing loop
  leaves it, and the call has no result.
\<close>

lemma example_overrun:
  "cBytesBuffer_of example_env (example_state k_regression [576460752303423488, 2] 4)
     [example_feature 576460752303423488 0] = Some (2 ^ 63 + 64)"
  "CalculateInteractionScore example_env
     (Some (example_state k_regression [576460752303423488, 2] 4)) 1 (Some [0]) 1 (Some NaN)
     Map.empty = None"
  by (simp_all add: eval_defs)

section \<open>The claims\<close>

text \<open>
  C1.  Every call of \<^verbatim>\<open>CalculateInteractionScore\<close> that returns 0 and is given a
  non-null \<^verbatim>\<open>interactionScoreOut\<close> stores there a score that is not NaN and is
  strictly below \<^verbatim>\<open>numeric_limits::max()\<close>, whatever the arithmetic.  When the
  call is the scoring of a pair (a state with samples and a class count other than 0
  and 1, two usable feature indexes), the stored score is the best splitting score of
  the sweep, replaced by 0 when it is NaN or at least the maximum; in every other call
  that returns 0 (the index array holding at least \<^verbatim>\<open>countFeaturesInGroup\<close>
  entries) it is 0.  The stored score is at least 0 as soon as the arithmetic is as the
  sweep asserts it (\<open>arithmetic_ok\<close>).
\<close>

theorem C1_score_in_range:
  assumes "CalculateInteractionScore e ebmInteraction countFeaturesInGroup featureIndexes
             countSamplesRequiredForChildSplitMin (Some old) h = Some res"
    and "returned res = 0"
  shows "\<exists>v. score_out res = Some v
             \<and> \<not> isnan v \<and> float_less v FloatEbmType_max
             \<and> (arithmetic_ok e \<longrightarrow> float_le (Finite 0) v)
             \<and> (\<forall>s a best.
                   ebmInteraction = Some s \<and> countFeaturesInGroup = 2
                   \<and> featureIndexes = Some a \<and> 2 \<le> length a
                   \<and> GetCountSamples s \<noteq> 0
                   \<and> (\<forall>i \<in> set (take 2 a). usable_featureIndex s i)
                   \<and> GetRuntimeLearningTypeOrCountTargetClasses s \<noteq> 0
                   \<and> GetRuntimeLearningTypeOrCountTargetClasses s \<noteq> 1
                   \<and> best = FindBestInteractionGainPairs e s (make_FeatureGroup s (take 2 a))
                              (cSamplesRequiredForChildSplitMin_of
                                 countSamplesRequiredForChildSplitMin)
                 \<longrightarrow> v = (if isnan best \<or> float_le FloatEbmType_max best
                          then Finite 0 else best))
             \<and> ((\<forall>a. featureIndexes = Some a \<longrightarrow> unat countFeaturesInGroup \<le> length a)
                 \<and> \<not> (\<exists>s a. ebmInteraction = Some s \<and> countFeaturesInGroup = 2
                           \<and> featureIndexes = Some a
                           \<and> GetCountSamples s \<noteq> 0
                           \<and> (\<forall>i \<in> set (take 2 a). usable_featureIndex s i)
                           \<and> GetRuntimeLearningTypeOrCountTargetClasses s \<noteq> 0
                           \<and> GetRuntimeLearningTypeOrCountTargetClasses s \<noteq> 1)
                 \<longrightarrow> v = Finite 0)"
proof -
  let ?D = countFeaturesInGroup
  let ?m = countSamplesRequiredForChildSplitMin
  let ?pair = "\<lambda>s a. ebmInteraction = Some s \<and> ?D = 2 \<and> featureIndexes = Some a
                 \<and> GetCountSamples s \<noteq> 0
                 \<and> (\<forall>i \<in> set (take 2 a). usable_featureIndex s i)
                 \<and> GetRuntimeLearningTypeOrCountTargetClasses s \<noteq> 0
                 \<and> GetRuntimeLearningTypeOrCountTargetClasses s \<noteq> 1"
  have zero: "\<not> isnan (Finite 0) \<and> float_less (Finite 0) FloatEbmType_max
              \<and> float_le (Finite 0) (Finite 0)"
    by (simp add: FloatEbmType_max_def)
  from assms obtain s where s: "ebmInteraction = Some s"
    by (cases ebmInteraction) (auto simp: CalculateInteractionScore_def)
  let ?scoring = "0 < sint ?D \<and> sint ?D \<le> 63 \<and> GetCountSamples s \<noteq> 0
              \<and> (\<exists>a. featureIndexes = Some a
                    \<and> check_featureIndexes s (take (unat ?D) a) = None)
              \<and> GetRuntimeLearningTypeOrCountTargetClasses s \<noteq> 0
              \<and> GetRuntimeLearningTypeOrCountTargetClasses s \<noteq> 1"
  have pair_scoring: "?scoring" if "?pair s' a" for s' a
  proof -
    from that s have "s' = s" by simp
    moreover from that have "check_featureIndexes s' (take (unat ?D) a) = None"
      by (simp add: check_featureIndexes_usable)
    ultimately show ?thesis
      using that by simp
  qed
  show ?thesis
  proof (cases ?scoring)
    case False
    from CalculateInteractionScore_early [OF False, of e ?m "Some old" h] assms s
    have "score_out res = Some (Finite 0)"
      by (auto simp: store_def)
    moreover have "\<not> ?pair s' a" for s' a
      using pair_scoring [of s' a] False by blast
    ultimately show ?thesis
      using zero by auto
  next
    case True
    then obtain a where a: "featureIndexes = Some a"
      and chk: "check_featureIndexes s (take (unat ?D) a) = None"
      by blast
    from True have t: "0 < sint ?D" "sint ?D \<le> 63" "GetCountSamples s \<noteq> 0"
      "GetRuntimeLearningTypeOrCountTargetClasses s \<noteq> 0"
      "GetRuntimeLearningTypeOrCountTargetClasses s \<noteq> 1"
      by simp_all
    let ?g = "make_FeatureGroup s (take (unat ?D) a)"
    let ?c = "cSamplesRequiredForChildSplitMin_of ?m :: size_t"
    from assms obtain h1 out' r' h2 where
      int: "CalculateInteractionScoreInternal e InitializeZero h1 s ?g ?c (Some old)
              = Some (False, out', r', h2)"
      and out: "score_out res = out'"
      unfolding s a CalculateInteractionScore_scoring [OF t(1-3) chk t(4,5)] Allocate_cases
      by (auto split: option.splits if_splits)
    have usable: "\<forall>i \<in> set (take (unat ?D) a). usable_featureIndex s i"
      using chk by (simp add: check_featureIndexes_usable)
    show ?thesis
    proof (cases "2 = FeatureGroup_GetCountFeatures ?g")
      case pair: True
      let ?best = "FindBestInteractionGainPairs e s ?g ?c"
      have v: "score_out res = Some (filter_score ?best)"
        using Internal_score_pair [OF pair int] out by (simp add: store_def)
      have c4: "\<forall>s' a' best.
                   ebmInteraction = Some s' \<and> ?D = 2
                   \<and> featureIndexes = Some a' \<and> 2 \<le> length a'
                   \<and> GetCountSamples s' \<noteq> 0
                   \<and> (\<forall>i \<in> set (take 2 a'). usable_featureIndex s' i)
                   \<and> GetRuntimeLearningTypeOrCountTargetClasses s' \<noteq> 0
                   \<and> GetRuntimeLearningTypeOrCountTargetClasses s' \<noteq> 1
                   \<and> best = FindBestInteractionGainPairs e s' (make_FeatureGroup s' (take 2 a'))
                              (cSamplesRequiredForChildSplitMin_of ?m)
                 \<longrightarrow> filter_score ?best = (if isnan best \<or> float_le FloatEbmType_max best
                          then Finite 0 else best)"
        using s a by (auto simp: filter_score_def)
      have c5: "(\<forall>a. featureIndexes = Some a \<longrightarrow> unat ?D \<le> length a)
                 \<and> \<not> (\<exists>s a. ?pair s a)
                 \<longrightarrow> filter_score ?best = Finite 0"
      proof (intro impI)
        assume H: "(\<forall>a. featureIndexes = Some a \<longrightarrow> unat ?D \<le> length a)
                 \<and> \<not> (\<exists>s a. ?pair s a)"
        then have len: "unat ?D \<le> length a"
          using a by simp
        have "?D = 2"
          using pair unfolding count_of_group [OF len] by simp
        then have "?pair s a"
          using s a t usable by simp
        then show "filter_score ?best = Finite 0"
          using H by blast
      qed
      show ?thesis
        using v filter_score_range [of ?best]
          filter_score_nonneg [OF FindBestInteractionGainPairs_nn, of e s ?g ?c] c4 c5
        by simp
    next
      case notpair: False
      have v: "score_out res = Some (Finite 0)"
        using Internal_score_not_pair [OF notpair int] out by (simp add: store_def)
      have "\<not> (?pair s' a' \<and> 2 \<le> length a')" for s' a'
      proof
        assume p: "?pair s' a' \<and> 2 \<le> length a'"
        then have "a' = a" and d: "?D = 2" and "2 \<le> length a"
          using a by simp_all
        then have "unat ?D \<le> length a"
          by simp
        from count_of_group [OF this, of s] d notpair show False
          by simp
      qed
      then show ?thesis
        using v zero by auto
    qed
  qed
qed

theorem C1_score_in_range_witness:
  "CalculateInteractionScore example_env (Some (example_state k_regression [2, 2] 4)) 2
     (Some [0, 1]) 1 (Some NaN) Map.empty
     = Some \<lparr>returned = 0, score_out = Some (Finite 4), heap_out = Map.empty\<rparr>
   \<and> arithmetic_ok example_env
   \<and> FindBestInteractionGainPairs example_env (example_state k_regression [2, 2] 4)
        [example_feature 2 0, example_feature 2 1] 1 = Finite 4
   \<and> \<not> isnan (Finite 4) \<and> float_less (Finite 4) FloatEbmType_max
   \<and> float_le (Finite 0) (Finite 4)
   \<and> CalculateInteractionScore (example_env_breakdown NaN)
       (Some (example_state k_regression [2, 2] 4)) 2 (Some [0, 1]) 1 (Some (Finite 7))
       Map.empty
     = Some \<lparr>returned = 0, score_out = Some (Finite 0), heap_out = Map.empty\<rparr>
   \<and> FindBestInteractionGainPairs (example_env_breakdown NaN)
        (example_state k_regression [2, 2] 4)
        [example_feature 2 0, example_feature 2 1] 1 = NaN
   \<and> CalculateInteractionScore (example_env_breakdown PosInf)
       (Some (example_state k_regression [2, 2] 4)) 2 (Some [0, 1]) 1 (Some (Finite 7))
       Map.empty
     = Some \<lparr>returned = 0, score_out = Some (Finite 0), heap_out = Map.empty\<rparr>
   \<and> FindBestInteractionGainPairs (example_env_breakdown PosInf)
        (example_state k_regression [2, 2] 4)
        [example_feature 2 0, example_feature 2 1] 1 = PosInf
   \<and> float_le FloatEbmType_max PosInf"
proof -
  let ?s = "example_state k_regression [2, 2] 4"
  let ?g = "[example_feature 2 0, example_feature 2 1]"
  have g: "make_FeatureGroup ?s [0, 1] = ?g"
    by (simp add: make_FeatureGroup_def static_cast_size_t_def)
  have c: "(cSamplesRequiredForChildSplitMin_of (1 :: IntEbmType) :: size_t) = 1"
    by (simp add: cSamplesRequiredForChildSplitMin_of_def IsNumberConvertable_def uint_minus_1)
  have u: "\<forall>i \<in> set (take 2 [0, 1]). usable_featureIndex ?s i"
    using example_usable [of 2 2 k_regression 4] by simp
  have k: "GetRuntimeLearningTypeOrCountTargetClasses ?s \<noteq> 0
           \<and> GetRuntimeLearningTypeOrCountTargetClasses ?s \<noteq> 1"
    by (simp add: k_regression_def)
  have r: "returned \<lparr>returned = 0, score_out = x, heap_out = Map.empty\<rparr> = 0" for x
    by simp
  have step: "x = (if isnan (FindBestInteractionGainPairs e0 ?s ?g 1)
                     \<or> float_le FloatEbmType_max (FindBestInteractionGainPairs e0 ?s ?g 1)
                   then Finite 0 else FindBestInteractionGainPairs e0 ?s ?g 1)
              \<and> \<not> isnan x \<and> float_less x FloatEbmType_max
              \<and> (arithmetic_ok e0 \<longrightarrow> float_le (Finite 0) x)"
    if call: "CalculateInteractionScore e0 (Some ?s) 2 (Some [0, 1]) 1 (Some old) Map.empty
                = Some \<lparr>returned = 0, score_out = Some x, heap_out = Map.empty\<rparr>"
    for e0 x old
  proof -
    from C1_score_in_range [OF call r]
    obtain v where v: "Some x = Some v" "\<not> isnan v" "float_less v FloatEbmType_max"
        "arithmetic_ok e0 \<longrightarrow> float_le (Finite 0) v"
      and best: "\<forall>s a best.
                   Some ?s = Some s \<and> (2 :: IntEbmType) = 2
                   \<and> Some [0, 1] = Some a \<and> 2 \<le> length a
                   \<and> GetCountSamples s \<noteq> 0
                   \<and> (\<forall>i \<in> set (take 2 a). usable_featureIndex s i)
                   \<and> GetRuntimeLearningTypeOrCountTargetClasses s \<noteq> 0
                   \<and> GetRuntimeLearningTypeOrCountTargetClasses s \<noteq> 1
                   \<and> best = FindBestInteractionGainPairs e0 s
                              (make_FeatureGroup s (take 2 a))
                              (cSamplesRequiredForChildSplitMin_of 1)
                 \<longrightarrow> v = (if isnan best \<or> float_le FloatEbmType_max best
                          then Finite 0 else best)"
      by auto
    from best [rule_format, of ?s "[0, 1]" "FindBestInteractionGainPairs e0 ?s
        (make_FeatureGroup ?s (take 2 [0, 1])) (cSamplesRequiredForChildSplitMin_of 1)"]
      u k
    have "v = (if isnan (FindBestInteractionGainPairs e0 ?s ?g 1)
                 \<or> float_le FloatEbmType_max (FindBestInteractionGainPairs e0 ?s ?g 1)
               then Finite 0 else FindBestInteractionGainPairs e0 ?s ?g 1)"
      by (simp add: g c)
    then show ?thesis
      using v by simp
  qed
  from step [OF example_xor] step [OF example_breakdown(1)] step [OF example_breakdown(2)]
    arithmetic_ok_example_env
  show ?thesis
    by (simp add: example_xor example_breakdown FloatEbmType_max_def)
qed

text \<open>
  C2, as the code has it.  For a non-null state, a group length other than 2 and an
  index array of at least that many entries: a call that returns 0 has stored 0 through
  a non-null \<^verbatim>\<open>interactionScoreOut\<close>; the length 0 returns 0; a length from 1 to
  63 with valid indexes returns 0 whenever the sizing of the buffer passes, asking for
  at least one byte and fewer than \<open>2 ^ 63\<close> bytes, and both allocations succeed; a
  length above 63 of usable indexes on a state with samples returns 1 and leaves the
  target of \<^verbatim>\<open>interactionScoreOut\<close> as it was.
\<close>

theorem C2_other_group_lengths:
  assumes "sint countFeaturesInGroup \<noteq> 2"
    and "\<forall>a. featureIndexes = Some a \<longrightarrow> unat countFeaturesInGroup \<le> length a"
  shows "(\<forall>res. CalculateInteractionScore e (Some s) countFeaturesInGroup featureIndexes
                   countSamplesRequiredForChildSplitMin interactionScoreOut h = Some res
                 \<and> returned res = 0
            \<longrightarrow> score_out res = store interactionScoreOut (Finite 0))
         \<and> (countFeaturesInGroup = 0
            \<longrightarrow> CalculateInteractionScore e (Some s) countFeaturesInGroup featureIndexes
                  countSamplesRequiredForChildSplitMin interactionScoreOut h
                = Some \<lparr>returned = 0, score_out = store interactionScoreOut (Finite 0),
                        heap_out = h\<rparr>)
         \<and> (\<forall>a n. 0 < sint countFeaturesInGroup \<and> sint countFeaturesInGroup \<le> 63
                \<and> featureIndexes = Some a
                \<and> (\<forall>i \<in> set (take (unat countFeaturesInGroup) a). valid_featureIndex s i)
                \<and> malloc_CachedInteractionThreadResources e \<noteq> None
                \<and> malloc_ThreadByteBuffer1 e \<noteq> None
                \<and> cBytesBuffer_of e s
                     (make_FeatureGroup s (take (unat countFeaturesInGroup) a)) = Some n
                \<and> n \<noteq> 0 \<and> unat n < 2 ^ 63
            \<longrightarrow> (\<exists>res. CalculateInteractionScore e (Some s) countFeaturesInGroup
                          featureIndexes countSamplesRequiredForChildSplitMin
                          interactionScoreOut h = Some res
                        \<and> returned res = 0
                        \<and> score_out res = store interactionScoreOut (Finite 0)))
         \<and> (\<forall>a. 63 < sint countFeaturesInGroup \<and> featureIndexes = Some a
                \<and> GetCountSamples s \<noteq> 0
                \<and> (\<forall>i \<in> set (take (unat countFeaturesInGroup) a). usable_featureIndex s i)
            \<longrightarrow> CalculateInteractionScore e (Some s) countFeaturesInGroup
                      featureIndexes countSamplesRequiredForChildSplitMin interactionScoreOut h
                  = Some \<lparr>returned = 1, score_out = interactionScoreOut, heap_out = h\<rparr>)"
    (is "?P1 \<and> ?P2 \<and> ?P3 \<and> ?P4")
proof -
  let ?D = countFeaturesInGroup
  let ?r = "CalculateInteractionScore e (Some s) countFeaturesInGroup featureIndexes
              countSamplesRequiredForChildSplitMin interactionScoreOut h"
  let ?c = "cSamplesRequiredForChildSplitMin_of countSamplesRequiredForChildSplitMin :: size_t"
  let ?scoring = "0 < sint countFeaturesInGroup \<and> sint countFeaturesInGroup \<le> 63
              \<and> GetCountSamples s \<noteq> 0
              \<and> (\<exists>a. featureIndexes = Some a
                    \<and> check_featureIndexes s (take (unat countFeaturesInGroup) a) = None)
              \<and> GetRuntimeLearningTypeOrCountTargetClasses s \<noteq> 0
              \<and> GetRuntimeLearningTypeOrCountTargetClasses s \<noteq> 1"
  have scoring_eq: "?r =
           (case malloc_CachedInteractionThreadResources e of
              None \<Rightarrow> Some \<lparr>returned = 1, score_out = interactionScoreOut, heap_out = h\<rparr>
            | Some w \<Rightarrow>
                (case CalculateInteractionScoreInternal e InitializeZero
                        (h(w \<mapsto> sizeof_CachedInteractionThreadResources)) s
                        (make_FeatureGroup s (take (unat ?D) a)) ?c interactionScoreOut of
                   None \<Rightarrow> None
                 | Some (failed, out', resources', h2) \<Rightarrow>
                     Some \<lparr>returned = (if failed then 1 else 0), score_out = out',
                           heap_out = Free (w, resources') h2\<rparr>))"
    if "?scoring" and "featureIndexes = Some a" for a
    using that CalculateInteractionScore_scoring [of countFeaturesInGroup s a e
        countSamplesRequiredForChildSplitMin interactionScoreOut h]
    by (auto simp: Allocate_cases split: option.splits)
  have ne: "2 \<noteq> FeatureGroup_GetCountFeatures (make_FeatureGroup s (take (unat ?D) a))"
    if "featureIndexes = Some a" for a
  proof -
    have len: "unat ?D \<le> length a"
      using assms(2) that by simp
    show ?thesis
      unfolding count_of_group [OF len] using assms(1) by auto
  qed
  have p1: ?P1
  proof (cases ?scoring)
    case False
    from CalculateInteractionScore_early [OF False, of e countSamplesRequiredForChildSplitMin
        interactionScoreOut h]
    show ?thesis
      by auto
  next
    case True
    then obtain a where a: "featureIndexes = Some a"
      by blast
    show ?thesis
      unfolding scoring_eq [OF True a]
      using Internal_score_not_pair [OF ne [OF a]]
      by (auto split: option.splits if_splits)
  qed
  have p2: ?P2
    by (simp add: CalculateInteractionScore_def static_cast_size_t_def
        IsNumberConvertable_size_t)
  have p3: ?P3
  proof (intro allI impI)
    fix a n
    assume H: "0 < sint countFeaturesInGroup \<and> sint countFeaturesInGroup \<le> 63
                \<and> featureIndexes = Some a
                \<and> (\<forall>i \<in> set (take (unat countFeaturesInGroup) a). valid_featureIndex s i)
                \<and> malloc_CachedInteractionThreadResources e \<noteq> None
                \<and> malloc_ThreadByteBuffer1 e \<noteq> None
                \<and> cBytesBuffer_of e s
                     (make_FeatureGroup s (take (unat countFeaturesInGroup) a)) = Some n
                \<and> n \<noteq> 0 \<and> unat n < 2 ^ 63"
    from H have a: "featureIndexes = Some a" by simp
    show "\<exists>res. ?r = Some res \<and> returned res = 0
                \<and> score_out res = store interactionScoreOut (Finite 0)"
    proof (cases ?scoring)
      case True
      from H obtain w where w: "malloc_CachedInteractionThreadResources e = Some w"
        by auto
      from H have n: "cBytesBuffer_of e s (make_FeatureGroup s (take (unat ?D) a)) = Some n"
        and n0: "n \<noteq> 0" and nlt: "unat n < 2 ^ 63"
        and mb: "malloc_ThreadByteBuffer1 e \<noteq> None"
        by simp_all
      from Internal_succeeds [OF n n0 nlt mb,
          of "h(w \<mapsto> sizeof_CachedInteractionThreadResources)" ?c interactionScoreOut]
      obtain out' r' h' where
        int: "CalculateInteractionScoreInternal e InitializeZero
                (h(w \<mapsto> sizeof_CachedInteractionThreadResources)) s
                (make_FeatureGroup s (take (unat ?D) a)) ?c interactionScoreOut
              = Some (False, out', r', h')"
        by blast
      from Internal_score_not_pair [OF ne [OF a] int]
      have "out' = store interactionScoreOut (Finite 0)" .
      then show ?thesis
        unfolding scoring_eq [OF True a] by (simp add: w int)
    next
      case False
      have nn: "0 \<le> sint countFeaturesInGroup" using H by simp
      have chk: "check_featureIndexes s (take (unat countFeaturesInGroup) a) = None
                 \<or> check_featureIndexes s (take (unat countFeaturesInGroup) a) = Some 0"
        using H by (intro check_featureIndexes_valid) simp
      have "countFeaturesInGroup \<noteq> 0" using H by auto
      then show ?thesis
        using False H chk le_63_iff [OF nn]
        by (auto simp: CalculateInteractionScore_def Let_def static_cast_size_t_def
            IsNumberConvertable_size_t)
    qed
  qed
  have p4: ?P4
  proof (intro allI impI)
    fix a
    assume H: "63 < sint countFeaturesInGroup \<and> featureIndexes = Some a
                \<and> GetCountSamples s \<noteq> 0
                \<and> (\<forall>i \<in> set (take (unat countFeaturesInGroup) a). usable_featureIndex s i)"
    have nn: "0 \<le> sint countFeaturesInGroup" using H by simp
    have chk: "check_featureIndexes s (take (unat countFeaturesInGroup) a) = None"
      using H by (simp add: check_featureIndexes_usable)
    have "countFeaturesInGroup \<noteq> 0" using H by auto
    then show "?r = Some \<lparr>returned = 1, score_out = interactionScoreOut, heap_out = h\<rparr>"
      using H chk le_63_iff [OF nn]
      by (auto simp: CalculateInteractionScore_def Let_def static_cast_size_t_def
          IsNumberConvertable_size_t)
  qed
  from p1 p2 p3 p4 show ?thesis
    by blast
qed

theorem C2_other_group_lengths_witness:
  "CalculateInteractionScore example_env
       (Some (example_state k_regression [2, 2] 4)) 1 (Some [0]) 1 (Some NaN) Map.empty
     = Some \<lparr>returned = 0, score_out = Some (Finite 0), heap_out = Map.empty\<rparr>
   \<and> cBytesBuffer_of example_env (example_state k_regression [2, 2] 4)
       [example_feature 2 0] = Some 96
   \<and> CalculateInteractionScore example_env
       (Some (example_state k_regression [2, 2] 4)) 0 None 1 (Some NaN) Map.empty
     = Some \<lparr>returned = 0, score_out = Some (Finite 0), heap_out = Map.empty\<rparr>
   \<and> CalculateInteractionScore example_env (Some (example_state k_regression [2, 2] 4)) 64
       (Some (replicate 64 0)) 1 (Some NaN) Map.empty
     = Some \<lparr>returned = 1, score_out = Some NaN, heap_out = Map.empty\<rparr>"
proof -
  let ?s = "example_state k_regression [2, 2] 4"
  have v: "valid_featureIndex ?s 0"
    by (simp add: valid_featureIndex_def static_cast_size_t_def)
  have u: "usable_featureIndex ?s 0"
    by (rule example_usable) simp_all
  have g: "make_FeatureGroup ?s [0] = [example_feature 2 0]"
    by (simp add: make_FeatureGroup_def static_cast_size_t_def)
  have c: "cBytesBuffer_of example_env ?s [example_feature 2 0] = Some 96"
    by (simp add: eval_defs)
  have m: "malloc_CachedInteractionThreadResources example_env \<noteq> None
           \<and> malloc_ThreadByteBuffer1 example_env \<noteq> None"
    by (simp add: example_env_def)
  have one: "sint (1 :: IntEbmType) \<noteq> 2" and zero: "sint (0 :: IntEbmType) \<noteq> 2"
    and big: "sint (64 :: IntEbmType) \<noteq> 2"
    by simp_all
  have l1: "\<forall>a. Some [0 :: IntEbmType] = Some a \<longrightarrow> unat (1 :: IntEbmType) \<le> length a"
    by simp
  have l0: "\<forall>a. (None :: IntEbmType list option) = Some a \<longrightarrow> unat (0 :: IntEbmType) \<le> length a"
    by simp
  have l64: "\<forall>a. Some (replicate 64 (0 :: IntEbmType)) = Some a
               \<longrightarrow> unat (64 :: IntEbmType) \<le> length a"
    by simp
  have u64: "\<forall>i \<in> set (take (unat (64 :: IntEbmType)) (replicate 64 0)). usable_featureIndex ?s i"
    using u by simp
  have hyp: "0 < sint (1 :: IntEbmType) \<and> sint (1 :: IntEbmType) \<le> 63
             \<and> Some [0 :: IntEbmType] = Some [0]
             \<and> (\<forall>i \<in> set (take (unat (1 :: IntEbmType)) [0]). valid_featureIndex ?s i)
             \<and> malloc_CachedInteractionThreadResources example_env \<noteq> None
             \<and> malloc_ThreadByteBuffer1 example_env \<noteq> None
             \<and> cBytesBuffer_of example_env ?s
                  (make_FeatureGroup ?s (take (unat (1 :: IntEbmType)) [0])) = Some 96
             \<and> (96 :: size_t) \<noteq> 0 \<and> unat (96 :: size_t) < 2 ^ 63"
    using v m c by (simp add: g)
  have hyp64: "63 < sint (64 :: IntEbmType)
             \<and> Some (replicate 64 (0 :: IntEbmType)) = Some (replicate 64 0)
             \<and> GetCountSamples ?s \<noteq> 0
             \<and> (\<forall>i \<in> set (take (unat (64 :: IntEbmType)) (replicate 64 0)).
                    usable_featureIndex ?s i)"
    using u64 by simp
  from C2_other_group_lengths [OF one l1, of example_env ?s 1 "Some NaN" Map.empty,
      THEN conjunct2, THEN conjunct2, THEN conjunct1, rule_format, OF hyp]
  obtain res where res: "CalculateInteractionScore example_env (Some ?s) 1 (Some [0]) 1
                           (Some NaN) Map.empty = Some res"
      "returned res = 0" "score_out res = store (Some NaN) (Finite 0)"
    by blast
  have call1: "CalculateInteractionScore example_env (Some ?s) 1 (Some [0]) 1 (Some NaN)
                 Map.empty
               = Some \<lparr>returned = 0, score_out = Some (Finite 0), heap_out = Map.empty\<rparr>"
    by (simp add: eval_defs)
  have p1: "score_out res = Some (Finite 0)"
    using C2_other_group_lengths [OF one l1, of example_env ?s 1 "Some NaN" Map.empty,
      THEN conjunct1, rule_format, of res] res(1,2)
    by (simp add: store_def)
  have p2: "CalculateInteractionScore example_env (Some ?s) 0 None 1 (Some NaN) Map.empty
            = Some \<lparr>returned = 0, score_out = store (Some NaN) (Finite 0),
                    heap_out = Map.empty\<rparr>"
    using C2_other_group_lengths [OF zero l0, of example_env ?s 1 "Some NaN" Map.empty,
      THEN conjunct2, THEN conjunct1]
    by simp
  have p4: "CalculateInteractionScore example_env (Some ?s) 64 (Some (replicate 64 0)) 1
              (Some NaN) Map.empty
            = Some \<lparr>returned = 1, score_out = Some NaN, heap_out = Map.empty\<rparr>"
    by (rule C2_other_group_lengths [OF big l64, of example_env ?s 1 "Some NaN" Map.empty,
      THEN conjunct2, THEN conjunct2, THEN conjunct2, rule_format, OF hyp64])
  show ?thesis
    using call1 c p1 p2 p4 by (simp add: store_def)
qed

text \<open>
  C2 as stated fails for a group of 64 usable indexes: the status is 1 and nothing is
  stored.
\<close>

theorem C2_counterexample:
  "CalculateInteractionScore example_env (Some (example_state k_regression [2, 2] 4)) 64
     (Some (replicate 64 0)) 1 (Some NaN) Map.empty
   = Some \<lparr>returned = 1, score_out = Some NaN, heap_out = Map.empty\<rparr>"
proof -
  have u: "usable_featureIndex (example_state k_regression [2, 2] 4) 0"
    by (rule example_usable) simp_all
  have "check_featureIndexes (example_state k_regression [2, 2] 4)
          (take (unat (64 :: IntEbmType)) (replicate 64 0)) = None"
    using u by (simp add: check_featureIndexes_usable)
  then show ?thesis
    by (simp add: CalculateInteractionScore_def Let_def static_cast_size_t_def
        IsNumberConvertable_size_t k_cDimensionsMax_eq)
qed

text \<open>
  C3.  When a call gets as far as sizing the tensor (a state with samples and a class
  count other than 0 and 1, a group of 1 to 63 usable feature indexes) and a sizing
  computation overflows \<^verbatim>\<open>size_t\<close>, be it the product of the bin counts, the sum
  with the auxiliary bucket count, the product with the bytes per bucket, or the bucket
  size itself, then \<^verbatim>\<open>CalculateInteractionScore\<close> returns, with a nonzero status,
  and leaves the target of \<^verbatim>\<open>interactionScoreOut\<close> as it was.
\<close>

theorem C3_sizing_overflow_is_error:
  assumes "0 < sint countFeaturesInGroup" and "sint countFeaturesInGroup \<le> 63"
    and "GetCountSamples s \<noteq> 0"
    and "\<forall>i \<in> set (take (unat countFeaturesInGroup) aFeatureIndexes). usable_featureIndex s i"
    and "GetRuntimeLearningTypeOrCountTargetClasses s \<noteq> 0"
    and "GetRuntimeLearningTypeOrCountTargetClasses s \<noteq> 1"
    and "pFeatureGroup = make_FeatureGroup s (take (unat countFeaturesInGroup) aFeatureIndexes)"
    and "cBytesPerHistogramBucket =
           GetHistogramBucketSize e
             (IsClassification (GetRuntimeLearningTypeOrCountTargetClasses s))
             (GetVectorLength (GetRuntimeLearningTypeOrCountTargetClasses s))"
    and "2 ^ 64 \<le> snd (exact_buckets (bins_of pFeatureGroup) 0 1)
         \<or> 2 ^ 64 \<le> snd (exact_buckets (bins_of pFeatureGroup) 0 1)
                       + max 4 (fst (exact_buckets (bins_of pFeatureGroup) 0 1))
         \<or> 2 ^ 64 \<le> (snd (exact_buckets (bins_of pFeatureGroup) 0 1)
                        + max 4 (fst (exact_buckets (bins_of pFeatureGroup) 0 1)))
                       * unat cBytesPerHistogramBucket
         \<or> GetHistogramBucketSizeOverflow e
             (IsClassification (GetRuntimeLearningTypeOrCountTargetClasses s))
             (GetVectorLength (GetRuntimeLearningTypeOrCountTargetClasses s))"
  shows "\<exists>res. CalculateInteractionScore e (Some s) countFeaturesInGroup
                  (Some aFeatureIndexes) countSamplesRequiredForChildSplitMin
                  interactionScoreOut h = Some res
               \<and> returned res \<noteq> 0
               \<and> score_out res = interactionScoreOut"
proof -
  have chk: "check_featureIndexes s (take (unat countFeaturesInGroup) aFeatureIndexes) = None"
    using assms(4) by (simp add: check_featureIndexes_usable)
  have bins: "\<forall>f \<in> set pFeatureGroup. 2 \<le> unat (GetCountBins f)"
    unfolding assms(7) using assms(4) by (rule bins_of_make_FeatureGroup)
  have none: "cBytesBuffer_of e s pFeatureGroup = None"
  proof (cases "cBytesBuffer_of e s pFeatureGroup")
    case None
    then show ?thesis .
  next
    case (Some n)
    from cBytesBuffer_of_exact [OF Some bins] assms(9) show ?thesis
      unfolding assms(8) by linarith
  qed
  show ?thesis
    unfolding CalculateInteractionScore_scoring [OF assms(1-3) chk assms(5,6)]
    using none
    by (simp add: CalculateInteractionScoreInternal_def assms(7) [symmetric]
        split: prod.splits option.splits)
qed

theorem C3_sizing_overflow_is_error_witness:
  "\<exists>res. CalculateInteractionScore example_env
       (Some (example_state k_regression [4294967296, 4294967296] 4)) 2 (Some [0, 1]) 1
       (Some NaN) Map.empty = Some res
     \<and> returned res \<noteq> 0 \<and> score_out res = Some NaN"
proof -
  let ?s = "example_state k_regression [4294967296, 4294967296] 4"
  let ?g = "make_FeatureGroup ?s (take (unat (2 :: IntEbmType)) [0, 1])"
  have u: "\<forall>i \<in> set (take (unat (2 :: IntEbmType)) [0, 1]). usable_featureIndex ?s i"
    using example_usable [of 4294967296 4294967296 k_regression 4] by simp
  have ov: "2 ^ 64 \<le> snd (exact_buckets (bins_of ?g) 0 1)
         \<or> 2 ^ 64 \<le> snd (exact_buckets (bins_of ?g) 0 1)
                       + max 4 (fst (exact_buckets (bins_of ?g) 0 1))
         \<or> 2 ^ 64 \<le> (snd (exact_buckets (bins_of ?g) 0 1)
                        + max 4 (fst (exact_buckets (bins_of ?g) 0 1)))
                       * unat (GetHistogramBucketSize example_env
             (IsClassification (GetRuntimeLearningTypeOrCountTargetClasses ?s))
             (GetVectorLength (GetRuntimeLearningTypeOrCountTargetClasses ?s)))
         \<or> GetHistogramBucketSizeOverflow example_env
             (IsClassification (GetRuntimeLearningTypeOrCountTargetClasses ?s))
             (GetVectorLength (GetRuntimeLearningTypeOrCountTargetClasses ?s))"
    by (simp add: make_FeatureGroup_def bins_of_def static_cast_size_t_def)
  show ?thesis
    using C3_sizing_overflow_is_error [of 2 ?s "[0, 1]" ?g _ example_env 1 "Some NaN" Map.empty,
        OF _ _ _ u _ _ refl refl ov]
    by (simp add: k_regression_def)
qed

text \<open>
  C4, as the code has it.  For a group of two features with bin counts
  \<open>B0, B1 \<ge> 2\<close> that passes the overflow checks, \<open>max 4 (B0 + 1)\<close> auxiliary buckets
  follow the main tensor: the buffer asked for holds
  \<open>(B0 * B1 + max 4 (B0 + 1)) * cBytesPerHistogramBucket\<close> bytes, which is
  \<open>(B0 * B1 + 4) * cBytesPerHistogramBucket\<close> when \<open>B0 \<le> 3\<close>, and for a
  bucket size other than 0 only then.
\<close>

theorem C4_buffer_request:
  assumes "cBytesBuffer_of e s [f0, f1] = Some cBytesBuffer"
    and "2 \<le> unat (GetCountBins f0)" and "2 \<le> unat (GetCountBins f1)"
    and "cBytesPerHistogramBucket =
           GetHistogramBucketSize e
             (IsClassification (GetRuntimeLearningTypeOrCountTargetClasses s))
             (GetVectorLength (GetRuntimeLearningTypeOrCountTargetClasses s))"
  shows "unat cBytesBuffer =
           (unat (GetCountBins f0) * unat (GetCountBins f1)
            + max 4 (unat (GetCountBins f0) + 1)) * unat cBytesPerHistogramBucket
         \<and> (unat (GetCountBins f0) \<le> 3 \<longrightarrow>
              unat cBytesBuffer =
                (unat (GetCountBins f0) * unat (GetCountBins f1) + 4)
                * unat cBytesPerHistogramBucket)
         \<and> (cBytesPerHistogramBucket \<noteq> 0
              \<and> unat cBytesBuffer =
                  (unat (GetCountBins f0) * unat (GetCountBins f1) + 4)
                  * unat cBytesPerHistogramBucket
            \<longrightarrow> unat (GetCountBins f0) \<le> 3)"
proof -
  have bins: "\<forall>f \<in> set [f0, f1]. 2 \<le> unat (GetCountBins f)"
    using assms(2,3) by simp
  have ex: "exact_buckets (bins_of [f0, f1]) 0 1
              = (1 + unat (GetCountBins f0), unat (GetCountBins f0) * unat (GetCountBins f1))"
    by (simp add: bins_of_def)
  have "unat cBytesBuffer =
           (unat (GetCountBins f0) * unat (GetCountBins f1)
            + max 4 (unat (GetCountBins f0) + 1)) * unat cBytesPerHistogramBucket"
    using cBytesBuffer_of_exact [OF assms(1) bins] unfolding ex assms(4) by simp
  moreover have "unat cBytesPerHistogramBucket = 0 \<longleftrightarrow> cBytesPerHistogramBucket = 0"
    by (simp add: unat_eq_0)
  ultimately show ?thesis
    by (auto simp: max_def)
qed

theorem C4_buffer_request_witness:
  "cBytesBuffer_of example_env (example_state k_regression [2, 2] 4)
     [example_feature 2 0, example_feature 2 1] = Some 128
   \<and> unat (128 :: size_t) = (2 * 2 + 4) * 16
   \<and> GetHistogramBucketSize example_env False 1 = 16"
proof -
  let ?s = "example_state k_regression [2, 2] 4"
  have c: "cBytesBuffer_of example_env ?s [example_feature 2 0, example_feature 2 1] = Some 128"
    by (simp add: eval_defs)
  from C4_buffer_request [OF c _ _ refl] c show ?thesis
    by (simp add: example_env_def)
qed

text \<open>
  C4 as stated fails for bin counts (4, 2) and 16-byte buckets: 5 auxiliary buckets are
  appended and 208 bytes are asked for, not \<open>(4 * 2 + 4) * 16 = 192\<close>.
\<close>

theorem C4_counterexample:
  "cBytesBuffer_of example_env (example_state k_regression [4, 2] 4)
     [example_feature 4 0, example_feature 2 1] = Some 208
   \<and> GetHistogramBucketSize example_env False 1 = 16
   \<and> (208 :: size_t) \<noteq> (4 * 2 + 4) * 16"
  by (simp add: eval_defs)

text \<open>
  C5, as the code has it.  A call of \<^verbatim>\<open>CalculateInteractionScore\<close> that gets to
  scoring allocates its own thread resources, zero-initialised (no buffer, capacity 0),
  and frees them with their buffer before it returns: when \<^verbatim>\<open>malloc\<close> hands out
  addresses that are not live, the heap after a call that returns is the heap before
  it.  No scratch buffer outlives a call.  The one call that does not return is the
  call whose buffer takes \<open>2 ^ 63\<close> bytes or more.
\<close>

theorem C5_nothing_retained:
  assumes "\<forall>p. malloc_CachedInteractionThreadResources e = Some p \<longrightarrow> p \<notin> dom h"
    and "\<forall>p. malloc_ThreadByteBuffer1 e = Some p \<longrightarrow> p \<notin> dom h"
  shows "(\<forall>res. CalculateInteractionScore e ebmInteraction countFeaturesInGroup
                  featureIndexes countSamplesRequiredForChildSplitMin
                  interactionScoreOut h = Some res
               \<longrightarrow> heap_out res = h)
         \<and> (CalculateInteractionScore e ebmInteraction countFeaturesInGroup
                  featureIndexes countSamplesRequiredForChildSplitMin
                  interactionScoreOut h = None
            \<longrightarrow> (\<exists>s a n. ebmInteraction = Some s \<and> featureIndexes = Some a
                    \<and> cBytesBuffer_of e s
                         (make_FeatureGroup s (take (unat countFeaturesInGroup) a)) = Some n
                    \<and> 2 ^ 63 \<le> unat n))
         \<and> (\<forall>answer h0 pNew resources h1.
               Allocate answer h0 = (Some (pNew, resources), h1) \<longrightarrow>
                 m_aThreadByteBuffer1 resources = None
                 \<and> m_cThreadByteBufferCapacity1 resources = 0)"
proof (intro conjI allI impI)
  fix res
  assume call: "CalculateInteractionScore e ebmInteraction countFeaturesInGroup
                  featureIndexes countSamplesRequiredForChildSplitMin
                  interactionScoreOut h = Some res"
  show "heap_out res = h"
  proof (cases "malloc_CachedInteractionThreadResources e")
    case None
    then show ?thesis
      using call
      by (auto simp: CalculateInteractionScore_def Let_def Allocate_cases
          split: option.splits if_splits)
  next
    case (Some w)
    then have w: "w \<notin> dom h"
      using assms(1) by simp
    show ?thesis
      using call Some Internal_then_Free [OF w assms(2)]
      by (auto simp: CalculateInteractionScore_def Let_def Allocate_cases
          split: option.splits if_splits)
  qed
next
  assume "CalculateInteractionScore e ebmInteraction countFeaturesInGroup
            featureIndexes countSamplesRequiredForChildSplitMin interactionScoreOut h = None"
  then show "\<exists>s a n. ebmInteraction = Some s \<and> featureIndexes = Some a
                    \<and> cBytesBuffer_of e s
                         (make_FeatureGroup s (take (unat countFeaturesInGroup) a)) = Some n
                    \<and> 2 ^ 63 \<le> unat n"
    by (rule CalculateInteractionScore_None)
next
  fix answer h0 pNew resources h1
  assume "Allocate answer h0 = (Some (pNew, resources), h1)"
  then show "m_aThreadByteBuffer1 resources = None"
    and "m_cThreadByteBufferCapacity1 resources = 0"
    by (auto simp: Allocate_def malloc_def InitializeZero_def split: option.splits)
qed

theorem C5_nothing_retained_witness:
  "CalculateInteractionScore example_env
       (Some (example_state k_regression [2, 2] 4)) 2 (Some [0, 1]) 1 (Some NaN) [5 \<mapsto> 40]
     = Some \<lparr>returned = 0, score_out = Some (Finite 4), heap_out = [5 \<mapsto> 40]\<rparr>
   \<and> CalculateInteractionScore example_env
       (Some (example_state k_regression [576460752303423488, 2] 4)) 1 (Some [0]) 1
       (Some NaN) Map.empty = None
   \<and> (\<exists>n. cBytesBuffer_of example_env (example_state k_regression [576460752303423488, 2] 4)
             (make_FeatureGroup (example_state k_regression [576460752303423488, 2] 4)
                (take (unat (1 :: IntEbmType)) [0])) = Some n
          \<and> 2 ^ 63 \<le> unat n)"
proof -
  have a: "\<forall>p. malloc_CachedInteractionThreadResources example_env = Some p
             \<longrightarrow> p \<notin> dom [5 \<mapsto> (40 :: nat)]"
    by (simp add: example_env_def)
  have b: "\<forall>p. malloc_ThreadByteBuffer1 example_env = Some p \<longrightarrow> p \<notin> dom [5 \<mapsto> (40 :: nat)]"
    by (simp add: example_env_def)
  have a0: "\<forall>p. malloc_CachedInteractionThreadResources example_env = Some p
             \<longrightarrow> p \<notin> dom (Map.empty :: heap)"
    by simp
  have b0: "\<forall>p. malloc_ThreadByteBuffer1 example_env = Some p \<longrightarrow> p \<notin> dom (Map.empty :: heap)"
    by simp
  have call: "\<exists>res. CalculateInteractionScore example_env
       (Some (example_state k_regression [2, 2] 4)) 2 (Some [0, 1]) 1 (Some NaN) [5 \<mapsto> 40]
     = Some \<lparr>returned = 0, score_out = Some (Finite 4), heap_out = res\<rparr>"
    by (simp add: eval_defs)
  from C5_nothing_retained [OF a b, of "Some (example_state k_regression [2, 2] 4)" 2
      "Some [0, 1]" 1 "Some NaN"]
    C5_nothing_retained [OF a0 b0,
      of "Some (example_state k_regression [576460752303423488, 2] 4)" 1 "Some [0]" 1
         "Some NaN"]
    call example_overrun(2)
  show ?thesis
    by auto
qed

text \<open>
  C5 as stated fails: in the scoring call on the two-by-two example the arena holds a
  buffer of capacity 256 at address 2 when the sweep is done, and that buffer is no
  longer live when the call returns.
\<close>

theorem C5_counterexample:
  "CalculateInteractionScoreInternal example_env InitializeZero [1 \<mapsto> 16]
       (example_state k_regression [2, 2] 4) [example_feature 2 0, example_feature 2 1] 1
       (Some NaN)
     = Some (False, Some (Finite 4),
             \<lparr>m_aThreadByteBuffer1 = Some 2, m_cThreadByteBufferCapacity1 = 256\<rparr>,
             [1 \<mapsto> 16, 2 \<mapsto> 256])
   \<and> CalculateInteractionScore example_env (Some (example_state k_regression [2, 2] 4)) 2
       (Some [0, 1]) 1 (Some NaN) Map.empty
     = Some \<lparr>returned = 0, score_out = Some (Finite 4), heap_out = Map.empty\<rparr>"
  by (simp add: eval_defs)

text \<open>
  C6.  For every state and every group in which some feature has 0 or 1 bins, the
  indexes up to that one being valid, \<^verbatim>\<open>CalculateInteractionScore\<close> returns 0
  and stores exactly 0 through a non-null \<^verbatim>\<open>interactionScoreOut\<close>; the heap is
  untouched and nothing of the environment is consulted, so no histogram is built.
\<close>

theorem C6_degenerate_feature_scores_zero:
  assumes "0 < sint countFeaturesInGroup"
    and "k < unat countFeaturesInGroup" and "k < length aFeatureIndexes"
    and "\<forall>j \<le> k. valid_featureIndex s (aFeatureIndexes ! j)"
    and "GetCountBins (GetFeatures s ! unat (static_cast_size_t (aFeatureIndexes ! k))) \<le> 1"
  shows "CalculateInteractionScore e (Some s) countFeaturesInGroup (Some aFeatureIndexes)
           countSamplesRequiredForChildSplitMin interactionScoreOut h
         = Some \<lparr>returned = 0, score_out = store interactionScoreOut (Finite 0),
                 heap_out = h\<rparr>"
proof -
  let ?xs = "take (unat countFeaturesInGroup) aFeatureIndexes"
  have len: "k < length ?xs"
    using assms(2,3) by simp
  have nth: "?xs ! j = aFeatureIndexes ! j" if "j \<le> k" for j
    using that assms(2) by simp
  have "check_featureIndexes s ?xs = Some 0"
  proof (rule check_featureIndexes_degenerate [OF len])
    show "\<forall>j \<le> k. valid_featureIndex s (?xs ! j)"
      using assms(4) nth by simp
    show "GetCountBins (GetFeatures s ! unat (static_cast_size_t (?xs ! k))) \<le> 1"
      using assms(5) nth [of k] by simp
  qed
  then show ?thesis
    by (rule CalculateInteractionScore_degenerate [OF assms(1)])
qed

theorem C6_degenerate_feature_scores_zero_witness:
  "CalculateInteractionScore example_env (Some (example_state k_regression [2, 1] 4)) 2
     (Some [0, 1]) 1 (Some NaN) Map.empty
   = Some \<lparr>returned = 0, score_out = Some (Finite 0), heap_out = Map.empty\<rparr>"
proof -
  let ?s = "example_state k_regression [2, 1] 4"
  have v: "\<forall>j \<le> 1. valid_featureIndex ?s ([0, 1] ! j)"
    by (auto simp: valid_featureIndex_def static_cast_size_t_def le_Suc_eq)
  have d: "GetCountBins (GetFeatures ?s ! unat (static_cast_size_t ([0, 1 :: IntEbmType] ! 1))) \<le> 1"
    by (simp add: static_cast_size_t_def)
  from C6_degenerate_feature_scores_zero [of 2 1 "[0, 1]" ?s example_env 1 "Some NaN" Map.empty,
      OF _ _ _ v d]
  show ?thesis
    by (simp add: store_def)
qed

text \<open>
  C7, as the code has it.  \<^verbatim>\<open>InitializeInteractionClassification\<close> accepts the
  class count 1 for any sample count and the class count 0 only when there are no
  samples (then it returns a state with that class count, the other arguments being
  in order); the class count 0 with samples is refused.  On a state with class count 0
  or 1, every call of \<^verbatim>\<open>CalculateInteractionScore\<close> with a group length from 0
  to 63 and valid indexes returns 0 and stores 0.
\<close>

theorem C7_degenerate_class_counts:
  "((sint countTargetClasses = 1 \<or> (countTargetClasses = 0 \<and> countSamples = 0))
      \<and> creation_args_ok ce countFeatures features countSamples binnedData targets
           predictorScores
      \<longrightarrow> (\<exists>s. InitializeInteractionClassification ce countTargetClasses countFeatures
                  features countSamples binnedData targets predictorScores = Some s
                \<and> GetRuntimeLearningTypeOrCountTargetClasses s = countTargetClasses))
   \<and> (countTargetClasses = 0 \<and> countSamples \<noteq> 0
      \<longrightarrow> InitializeInteractionClassification ce countTargetClasses countFeatures
            features countSamples binnedData targets predictorScores = None)
   \<and> ((GetRuntimeLearningTypeOrCountTargetClasses s = 0
        \<or> GetRuntimeLearningTypeOrCountTargetClasses s = 1)
      \<and> 0 \<le> sint countFeaturesInGroup \<and> sint countFeaturesInGroup \<le> 63
      \<and> (countFeaturesInGroup \<noteq> 0 \<longrightarrow>
            (case featureIndexes of
               None \<Rightarrow> False
             | Some a \<Rightarrow>
                 list_all (valid_featureIndex s) (take (unat countFeaturesInGroup) a)))
      \<longrightarrow> CalculateInteractionScore e (Some s) countFeaturesInGroup featureIndexes
            countSamplesRequiredForChildSplitMin interactionScoreOut h
          = Some \<lparr>returned = 0, score_out = store interactionScoreOut (Finite 0),
                  heap_out = h\<rparr>)"
  using InitializeInteractionClassification_accepts [of countTargetClasses countSamples ce
      countFeatures features binnedData targets predictorScores]
    degenerate_classes_score_zero [of s countFeaturesInGroup featureIndexes e
      countSamplesRequiredForChildSplitMin interactionScoreOut h]
  by (auto simp: InitializeInteractionClassification_def)

theorem C7_degenerate_class_counts_witness:
  "(\<exists>s. InitializeInteractionClassification example_create_env 1 1
           (Some [example_native_feature 2]) 1 (Some [0]) (Some [0]) (Some [Finite 0]) = Some s
        \<and> GetRuntimeLearningTypeOrCountTargetClasses s = 1)
   \<and> InitializeInteractionClassification example_create_env 0 1
       (Some [example_native_feature 2]) 1 (Some [0]) (Some [0]) (Some [Finite 0]) = None
   \<and> CalculateInteractionScore example_env (Some (example_state 1 [2, 2] 4)) 2
       (Some [0, 1]) 1 (Some NaN) Map.empty
     = Some \<lparr>returned = 0, score_out = Some (Finite 0), heap_out = Map.empty\<rparr>"
proof -
  have a: "creation_args_ok example_create_env 1 (Some [example_native_feature 2]) 1
     (Some [0]) (Some [0]) (Some [Finite 0])"
    by (simp add: creation_args_ok_def
      example_create_env_def example_native_feature_def native_feature_ok_def
      static_cast_size_t_def FeatureTypeOrdinal_def EBM_FALSE_def)
  have v: "list_all (valid_featureIndex (example_state 1 [2, 2] 4))
             (take (unat (2 :: IntEbmType)) [0, 1])"
    by (simp add: valid_featureIndex_def static_cast_size_t_def)
  from C7_degenerate_class_counts [of 1 1 example_create_env 1 "Some [example_native_feature 2]"
      "Some [0]" "Some [0]" "Some [Finite 0]"]
    C7_degenerate_class_counts [of 0 1 example_create_env 1 "Some [example_native_feature 2]"
      "Some [0]" "Some [0]" "Some [Finite 0]"]
    C7_degenerate_class_counts [of _ _ _ _ _ _ _ _ "example_state 1 [2, 2] 4" 2 "Some [0, 1]"
      example_env 1 "Some NaN" Map.empty]
    a v
  show ?thesis
    by (simp add: store_def)
qed

text \<open>
  C7 as stated fails for the class count 0 with one sample: the arguments are otherwise
  in order (they are accepted with the class count 1), and the handle is null.
\<close>

theorem C7_counterexample:
  "creation_args_ok example_create_env 1 (Some [example_native_feature 2]) 1
     (Some [0]) (Some [0]) (Some [Finite 0])
   \<and> InitializeInteractionClassification example_create_env 0 1
       (Some [example_native_feature 2]) 1 (Some [0]) (Some [0]) (Some [Finite 0]) = None"
  by (simp add: InitializeInteractionClassification_def creation_args_ok_def
      example_create_env_def example_native_feature_def native_feature_ok_def
      static_cast_size_t_def FeatureTypeOrdinal_def EBM_FALSE_def)

text \<open>
  C8, where the code departs from it.  A request of \<open>2 ^ 63 + 32\<close> bytes to a fresh
  arena records the capacity 64, not twice the request: the shift
  \<^verbatim>\<open>cBytesRequired << 1\<close> wraps, and a block of 64 bytes is what the caller is
  handed.  The entry point makes this request for a regression state and bin counts
  \<open>(2, 2 ^ 58 - 1)\<close> with 16-byte buckets.
\<close>

theorem C8_capacity_wraps:
  "GetThreadByteBuffer1 (Some 7) (2 ^ 63 + 32) InitializeZero Map.empty
     = (Some 7, \<lparr>m_aThreadByteBuffer1 = Some 7, m_cThreadByteBufferCapacity1 = 64\<rparr>,
        [7 \<mapsto> 64])
   \<and> cBytesBuffer_of example_env (example_state k_regression [2, 288230376151711743] 4)
       [example_feature 2 0, example_feature 288230376151711743 1] = Some (2 ^ 63 + 32)"
  by (simp add: eval_defs)

text \<open>
  C9.  A \<^verbatim>\<open>countSamplesRequiredForChildSplitMin\<close> below 1 is taken as 1: the call
  does exactly what it does for the argument 1, status included, so no error comes of
  it.  For a \<^verbatim>\<open>size_t\<close> of any width, an argument above the width's maximum is
  taken as that maximum, and an argument in between is taken as it is.
\<close>

theorem C9_min_samples_clamped:
  "(sint countSamplesRequiredForChildSplitMin < 1 \<longrightarrow>
      CalculateInteractionScore e ebmInteraction countFeaturesInGroup featureIndexes
        countSamplesRequiredForChildSplitMin interactionScoreOut h
      = CalculateInteractionScore e ebmInteraction countFeaturesInGroup featureIndexes
        1 interactionScoreOut h)
   \<and> (sint countSamplesRequiredForChildSplitMin < 1 \<longrightarrow>
      (cSamplesRequiredForChildSplitMin_of countSamplesRequiredForChildSplitMin :: 'a::len word) = 1)
   \<and> (uint (- 1 :: 'a word) < sint countSamplesRequiredForChildSplitMin \<longrightarrow>
      (cSamplesRequiredForChildSplitMin_of countSamplesRequiredForChildSplitMin :: 'a word) = - 1)
   \<and> (1 \<le> sint countSamplesRequiredForChildSplitMin
      \<and> sint countSamplesRequiredForChildSplitMin \<le> uint (- 1 :: 'a word) \<longrightarrow>
      uint (cSamplesRequiredForChildSplitMin_of countSamplesRequiredForChildSplitMin :: 'a word)
        = sint countSamplesRequiredForChildSplitMin)"
proof -
  have one: "(cSamplesRequiredForChildSplitMin_of (1 :: IntEbmType) :: size_t) = 1"
    by (simp add: cSamplesRequiredForChildSplitMin_of_def IsNumberConvertable_def uint_minus_1)
  have "sint countSamplesRequiredForChildSplitMin < 1 \<Longrightarrow>
      CalculateInteractionScore e ebmInteraction countFeaturesInGroup featureIndexes
        countSamplesRequiredForChildSplitMin interactionScoreOut h
      = CalculateInteractionScore e ebmInteraction countFeaturesInGroup featureIndexes
        1 interactionScoreOut h"
    by (simp add: CalculateInteractionScore_def Let_def one clamp_small [where 'a = 64]
        cong: if_cong option.case_cong)
  then show ?thesis
    using clamp_small [of countSamplesRequiredForChildSplitMin, where 'a = 'a]
      clamp_large [of countSamplesRequiredForChildSplitMin, where 'a = 'a]
      clamp_mid [of countSamplesRequiredForChildSplitMin, where 'a = 'a]
    by blast
qed

theorem C9_min_samples_clamped_witness:
  "CalculateInteractionScore example_env (Some (example_state k_regression [2, 2] 4)) 2
       (Some [0, 1]) (- 5) (Some NaN) Map.empty
     = Some \<lparr>returned = 0, score_out = Some (Finite 4), heap_out = Map.empty\<rparr>
   \<and> (cSamplesRequiredForChildSplitMin_of (- 5) :: 32 word) = 1
   \<and> (cSamplesRequiredForChildSplitMin_of 1099511627776 :: 32 word) = 4294967295
   \<and> uint (cSamplesRequiredForChildSplitMin_of 7 :: 32 word) = 7"
proof -
  have a: "sint (- 5 :: IntEbmType) < 1" by simp
  have b: "uint (- 1 :: 32 word) < sint (1099511627776 :: IntEbmType)"
    by (simp add: uint_minus_1)
  have c: "1 \<le> sint (7 :: IntEbmType) \<and> sint (7 :: IntEbmType) \<le> uint (- 1 :: 32 word)"
    by (simp add: uint_minus_1)
  have x: "CalculateInteractionScore example_env (Some (example_state k_regression [2, 2] 4)) 2
       (Some [0, 1]) 1 (Some NaN) Map.empty
     = Some \<lparr>returned = 0, score_out = Some (Finite 4), heap_out = Map.empty\<rparr>"
    by (rule example_xor)
  from C9_min_samples_clamped [of "- 5" example_env "Some (example_state k_regression [2, 2] 4)"
      2 "Some [0, 1]" "Some NaN" Map.empty, where 'a = 32]
    C9_min_samples_clamped [of 1099511627776, where 'a = 32]
    C9_min_samples_clamped [of 7, where 'a = 32]
    a b c x
  show ?thesis
    by simp
qed

text \<open>
  C10, where the code departs from it.  A request of \<open>2 ^ 63\<close> bytes to a fresh arena
  whose allocation fails leaves the arena exactly as it was: the capacity written is
  \<open>2 ^ 63 << 1 = 0\<close>, not twice the request, and the pointer stays null.  The entry
  point makes this request for a regression state and bin counts \<open>(2, 2 ^ 58 - 2)\<close>
  with 16-byte buckets.
\<close>

theorem C10_failed_growth_unchanged:
  "GetThreadByteBuffer1 None (2 ^ 63) InitializeZero Map.empty
     = (None, InitializeZero, Map.empty)
   \<and> cBytesBuffer_of example_env (example_state k_regression [2, 288230376151711742] 4)
       [example_feature 2 0, example_feature 288230376151711742 1] = Some (2 ^ 63)"
  by (simp add: eval_defs)

end
